theory Spec2Isabelle
  imports Main "HOL-Library.Sublist"
begin

section \<open>The browser as an environment\<close>

text \<open>
  The five verification scripts drive a browser through Playwright. Each call into the
  library either returns or raises; which of the two is decided outside the scripts (by the
  browser, the application under test, the file system). A script is therefore modelled as
  a function of a \<^emph>\<open>world\<close>, which answers every call, given the calls made before it:
  \<open>None\<close> when the call returns, \<open>Some msg\<close> when it raises an exception whose text is
  \<open>msg\<close>. The handles (\<open>browser\<close>, \<open>context\<close>, \<open>page\<close>) are unique in every script and
  are left implicit.
\<close>

datatype locator =
    ByLabel string            \<comment> \<open>\<open>page.get_by_label(..)\<close>\<close>
  | ByRole string string      \<comment> \<open>\<open>page.get_by_role(role, name=..)\<close>\<close>
  | ByText string             \<comment> \<open>\<open>page.get_by_text(..)\<close>\<close>
  | Css string                \<comment> \<open>\<open>page.locator(..)\<close> or a selector string\<close>
  | Sub locator locator       \<comment> \<open>a locator looked up inside another one\<close>

datatype action =
    PlaywrightStart                     \<comment> \<open>entering \<open>with sync_playwright()\<close>\<close>
  | PlaywrightStop                      \<comment> \<open>leaving it\<close>
  | Launch "bool option"                \<comment> \<open>\<open>chromium.launch(headless=..)\<close>\<close>
  | NewContext                          \<comment> \<open>\<open>browser.new_context()\<close>\<close>
  | NewPage                             \<comment> \<open>\<open>new_page()\<close>\<close>
  | Goto string                         \<comment> \<open>\<open>page.goto(url)\<close>\<close>
  | Screenshot string                   \<comment> \<open>\<open>page.screenshot(path=..)\<close>\<close>
  | LocatorScreenshot locator string    \<comment> \<open>\<open>locator.screenshot(path=..)\<close>\<close>
  | Fill locator string                 \<comment> \<open>\<open>locator.fill(value)\<close>\<close>
  | Click locator                       \<comment> \<open>\<open>locator.click()\<close>, \<open>page.click(selector)\<close>\<close>
  | SetInputFiles locator string        \<comment> \<open>\<open>set_input_files(file)\<close>\<close>
  | WaitForUrl string "nat option"      \<comment> \<open>\<open>page.wait_for_url(url)\<close>, timeout in ms if given\<close>
  | WaitForSelector string "nat option" \<comment> \<open>\<open>page.wait_for_selector(sel)\<close>, timeout in ms if given\<close>
  | ExpectVisible locator "nat option"  \<comment> \<open>\<open>expect(loc).to_be_visible(timeout=..)\<close>\<close>
  | ContextClose                        \<comment> \<open>\<open>context.close()\<close>\<close>
  | BrowserClose                        \<comment> \<open>\<open>browser.close()\<close>\<close>
  | Sleep nat                           \<comment> \<open>\<open>time.sleep(seconds)\<close>\<close>
  | Print string                        \<comment> \<open>\<open>print(..)\<close>\<close>

type_synonym world = "action list \<Rightarrow> action \<Rightarrow> string option"

text \<open>The result of running a piece of a script: the exception that left it, if any, and
  the calls made so far, oldest first.\<close>

type_synonym outcome = "string option \<times> action list"

type_synonym prog = "world \<Rightarrow> action list \<Rightarrow> outcome"

text \<open>\<open>print\<close> and \<open>time.sleep\<close> are local to the interpreter: they are recorded and do not
  raise. Every other call raises when the world says so.\<close>

fun external :: "action \<Rightarrow> bool" where
  "external (Sleep n) = False"
| "external (Print s) = False"
| "external a = True"

definition raises :: "world \<Rightarrow> action list \<Rightarrow> action \<Rightarrow> string option" where
  "raises w h a = (if external a then w h a else None)"

definition call :: "action \<Rightarrow> prog" where
  "call a w h = (raises w h a, h @ [a])"

text \<open>A block of statements, each one call: the first one that raises ends the block.\<close>

fun run_calls :: "action list \<Rightarrow> prog" where
  "run_calls [] w h = (None, h)"
| "run_calls (a # as) w h =
     (case call a w h of
        (Some e, h') \<Rightarrow> (Some e, h')
      | (None, h') \<Rightarrow> run_calls as w h')"

text \<open>Two blocks one after the other.\<close>

definition andthen :: "prog \<Rightarrow> prog \<Rightarrow> prog" where
  "andthen p q w h =
     (case p w h of
        (Some e, h') \<Rightarrow> (Some e, h')
      | (None, h') \<Rightarrow> q w h')"

text \<open>\<open>try: p finally: fin\<close>. The \<open>finally\<close> block runs on every path; an exception of
  its own replaces the one in flight.\<close>

definition try_finally :: "prog \<Rightarrow> prog \<Rightarrow> prog" where
  "try_finally p fin w h =
     (case p w h of
        (r, h') \<Rightarrow>
          (case fin w h' of
             (Some e, h'') \<Rightarrow> (Some e, h'')
           | (None, h'') \<Rightarrow> (r, h'')))"

text \<open>\<open>try: p except Exception as e: handler\<close>.\<close>

definition try_except :: "prog \<Rightarrow> (string \<Rightarrow> prog) \<Rightarrow> prog" where
  "try_except p handler w h =
     (case p w h of
        (Some e, h') \<Rightarrow> handler e w h'
      | (None, h') \<Rightarrow> (None, h'))"

text \<open>\<open>with sync_playwright() as p: body\<close>: the context manager is left on every path.\<close>

definition with_playwright :: "prog \<Rightarrow> prog" where
  "with_playwright body =
     andthen (run_calls [PlaywrightStart]) (try_finally body (run_calls [PlaywrightStop]))"

text \<open>The exit status of the interpreter: 1 when an exception reaches the top level.\<close>

definition exit_status :: "outcome \<Rightarrow> nat" where
  "exit_status r = (case fst r of None \<Rightarrow> 0 | Some e \<Rightarrow> 1)"

section \<open>The scripts\<close>

subsection \<open>\<open>verify.py\<close>\<close>

text \<open>\<open>random.choice(letters)\<close> returns \<open>letters[k]\<close> for an index \<open>k\<close> below 26 that the
  generator chooses; \<open>draws i\<close> is the generator's \<open>i\<close>-th choice, taken modulo 26 so that
  every sequence of draws is one the generator can produce.\<close>

definition letters :: string where
  "letters = ''abcdefghijklmnopqrstuvwxyz''"

definition random_string :: "(nat \<Rightarrow> nat) \<Rightarrow> nat \<Rightarrow> string" where
  "random_string draws len = map (\<lambda>i. letters ! (draws i mod 26)) [0..<len]"

definition email :: "(nat \<Rightarrow> nat) \<Rightarrow> string" where
  "email draws = ''user_'' @ random_string draws 10 @ ''@example.com''"

definition insufficient_text :: string where
  "insufficient_text = ''You need to add at least one of each: Bottom, Footwear.''"

definition home :: string where
  "home = ''http://localhost:3000''"

definition verify_steps :: "(nat \<Rightarrow> nat) \<Rightarrow> action list" where
  \<open>verify_steps draws =
    [Goto ''http://localhost:3000/auth/sign-up'',
     Screenshot ''jules-scratch/verification/signup-page.png'',
     Fill (ByLabel ''Email'') (email draws),
     Fill (ByLabel ''Password'') ''password'',
     Click (ByRole ''button'' ''Sign Up''),
     WaitForUrl ''http://localhost:3000/onboarding'' None,
     Click (ByRole ''button'' ''Get Started''),
     WaitForUrl ''http://localhost:3000/wardrobe'' None,
     Click (ByRole ''button'' ''Add Item''),
     SetInputFiles (Css ''input[type="file"]'') ''src/app/wardrobe/placeholder.png'',
     Click (ByRole ''button'' ''Add Item''),
     ExpectVisible (ByText ''Item added successfully'') None,
     Goto home,
     ExpectVisible (ByText insufficient_text) None,
     Screenshot ''jules-scratch/verification/insufficient-items.png'']\<close>

definition verify_main :: "(nat \<Rightarrow> nat) \<Rightarrow> prog" where
  "verify_main draws =
     with_playwright
       (andthen (run_calls [Launch (Some True), NewPage])
          (try_finally
             (run_calls (verify_steps draws))
             (run_calls [BrowserClose])))"

subsection \<open>\<open>verify_feedback_feature.py\<close>\<close>

definition outfit_recommender :: locator where
  "outfit_recommender = Css ''div.bg-white.p-6.rounded-lg.shadow-md''"

definition feedback_steps :: "action list" where
  "feedback_steps =
    [Goto home,
     ExpectVisible outfit_recommender (Some 15000),
     ExpectVisible (Sub outfit_recommender (ByRole ''heading'' ''Your Daily Outfit Pick'')) None,
     ExpectVisible (ByRole ''button'' ''Like'') None,
     ExpectVisible (ByRole ''button'' ''Dislike'') None,
     Screenshot ''jules-scratch/verification/feedback_feature.png'',
     Print ''Screenshot taken successfully.'']"

definition feedback_handler :: "string \<Rightarrow> action list" where
  "feedback_handler e =
    [Print (''An error occurred: '' @ e),
     Screenshot ''jules-scratch/verification/error.png'']"

definition feedback_run_verification :: prog where
  "feedback_run_verification =
     with_playwright
       (andthen (run_calls [Launch (Some True), NewPage])
          (try_finally
             (try_except (run_calls feedback_steps) (\<lambda>e. run_calls (feedback_handler e)))
             (run_calls [BrowserClose])))"

subsection \<open>\<open>verify_invalid_image.py\<close>\<close>

definition invalid_image_text :: string where
  "invalid_image_text = ''AI could not detect a clothing item. Please try another image.''"

definition invalid_image_steps :: "action list" where
  \<open>invalid_image_steps =
    [Goto ''http://localhost:3000/wardrobe'',
     Click (Css ''button:has-text("Add Item")''),
     SetInputFiles (Css ''input[type="file"]'') ''tests/fixtures/wooden-plank.jpeg'',
     WaitForSelector (''text="'' @ invalid_image_text @ ''"'') None,
     Screenshot ''jules-scratch/verification/verification.png'']\<close>

definition invalid_image_run :: prog where
  "invalid_image_run =
     andthen (run_calls [Launch (Some True), NewContext, NewPage])
       (try_finally
          (run_calls invalid_image_steps)
          (run_calls [ContextClose, BrowserClose]))"

definition invalid_image_script :: prog where
  "invalid_image_script = with_playwright invalid_image_run"

subsection \<open>\<open>verify_update.py\<close>\<close>

definition update_calls :: "action list" where
  \<open>update_calls =
    [Launch None,
     NewPage,
     Sleep 5,
     Goto ''http://localhost:3000/wardrobe'',
     Click (Css ''button:has-text("Add Item")''),
     SetInputFiles (Css ''input[type="file"]'') ''README.md'',
     Click (Css ''button:has-text("Add Item")''),
     Click (Css ''button:has-text("Edit")''),
     Click (Css ''button:has-text("Save Changes")''),
     Screenshot ''jules-scratch/verification/verification.png'',
     BrowserClose]\<close>

definition update_run :: prog where
  "update_run = run_calls update_calls"

definition update_script :: prog where
  "update_script = with_playwright update_run"

subsection \<open>\<open>verify_virtual_try_on.py\<close>\<close>

definition try_on_heading :: locator where
  "try_on_heading = ByRole ''heading'' ''Virtual Try-On''"

definition generate_button :: locator where
  "generate_button = ByRole ''button'' ''Generate Virtual Try-On''"

definition try_on_steps :: "action list" where
  "try_on_steps =
    [Goto home,
     ExpectVisible try_on_heading (Some 10000),
     ExpectVisible generate_button None,
     LocatorScreenshot (Sub try_on_heading (Css ''xpath=./..''))
       ''jules-scratch/verification/virtual_try_on_feature.png'',
     Print ''Screenshot captured successfully.'']"

definition try_on_handler :: "string \<Rightarrow> action list" where
  "try_on_handler e =
    [Print (''An error occurred during verification: '' @ e),
     Screenshot ''jules-scratch/verification/error_screenshot.png'']"

definition try_on_run_verification :: prog where
  "try_on_run_verification =
     with_playwright
       (andthen (run_calls [Launch (Some True), NewPage])
          (try_finally
             (try_except (run_calls try_on_steps) (\<lambda>e. run_calls (try_on_handler e)))
             (run_calls [BrowserClose])))"

subsection \<open>\<open>create_image.py\<close>\<close>

text \<open>An image is a list of rows, a row a flat list of channel values. The inner loop
  extends the row by the colour once per column; the outer loop appends one such row per
  line. \<open>range(n)\<close> runs \<open>n\<close> times, and not at all when \<open>n\<close> is negative.\<close>

type_synonym image = "int list list"











section \<open>Vocabulary of the properties\<close>

text \<open>The calls that acquire the session, in the scripts that launch a browser and open a
  page directly, and in \<open>verify_invalid_image.py\<close>, which opens a context first.\<close>

definition session :: "action list" where
  "session = [PlaywrightStart, Launch (Some True), NewPage]"

definition invalid_image_session :: "action list" where
  "invalid_image_session = [PlaywrightStart, Launch (Some True), NewContext, NewPage]"

fun is_screenshot :: "action \<Rightarrow> bool" where
  "is_screenshot (Screenshot p) = True"
| "is_screenshot (LocatorScreenshot l p) = True"
| "is_screenshot a = False"

fun is_upload :: "action \<Rightarrow> bool" where
  "is_upload (SetInputFiles l f) = True"
| "is_upload a = False"

fun fixed_sleep :: "action \<Rightarrow> bool" where
  "fixed_sleep (Sleep n) = True"
| "fixed_sleep a = False"

text \<open>The timeout a call was given explicitly, if any.\<close>

fun explicit_timeout :: "action \<Rightarrow> nat option" where
  "explicit_timeout (WaitForUrl u t) = t"
| "explicit_timeout (WaitForSelector s t) = t"
| "explicit_timeout (ExpectVisible l t) = t"
| "explicit_timeout a = None"



section \<open>Worlds used as concrete inputs\<close>

text \<open>Every call returns.\<close>

definition w_ok :: world where
  "w_ok h a = None"

text \<open>The application is not running: every navigation raises, everything else returns.\<close>

definition w_down :: world where
  "w_down h a = (case a of Goto u \<Rightarrow> Some ''net::ERR_CONNECTION_REFUSED'' | _ \<Rightarrow> None)"

text \<open>The output directory cannot be written: every screenshot raises, everything else
  returns.\<close>

definition w_disk_full :: world where
  "w_disk_full h a =
     (case a of
        Screenshot p \<Rightarrow> Some ''ENOSPC''
      | LocatorScreenshot l p \<Rightarrow> Some ''ENOSPC''
      | _ \<Rightarrow> None)"


text \<open>An application whose home page shows none of the expected elements: an assertion of
  visibility made right after the navigation to the home page fails.\<close>

definition w_silent_home :: world where
  "w_silent_home h a =
     (case a of
        ExpectVisible l t \<Rightarrow>
          (if h \<noteq> [] \<and> last h = Goto home then Some ''Locator expected to be visible'' else None)
      | _ \<Rightarrow> None)"

text \<open>An application that takes every image for a piece of clothing: the rejection message
  never appears.\<close>

definition w_accepts_any_image :: world where
  "w_accepts_any_image h a =
     (case a of WaitForSelector s t \<Rightarrow> Some ''Timeout 30000ms exceeded.'' | _ \<Rightarrow> None)"

text \<open>Two outcomes of the random generator: always the first letter, always the second.\<close>

definition draws_a :: "nat \<Rightarrow> nat" where
  "draws_a i = 0"


section \<open>Waits and the application, from the specification\<close>

subsection \<open>Waits\<close>

text \<open>Modelled from the spec: the waits. The Playwright library that implements them is not
  part of the repository; the specification gives their policy: "poll at fixed interval
  until predicate holds or timeout is exhausted". \<open>wait_until now appears timeout\<close> is a
  wait that starts at time \<open>now\<close> for something that is visible from time \<open>appears\<close> on
  (\<open>None\<close>: never), all in milliseconds: whether it was found, and the time at which the
  wait ends. The polling interval is taken to be zero.\<close>

definition wait_until :: "nat \<Rightarrow> nat option \<Rightarrow> nat \<Rightarrow> bool \<times> nat" where
  "wait_until now appears timeout =
     (case appears of
        None \<Rightarrow> (False, now + timeout)
      | Some t \<Rightarrow> if t \<le> now + timeout then (True, max now t) else (False, now + timeout))"

text \<open>The timeout of a wait: the one it was passed, or else the default of the library.\<close>

definition given_timeout :: "nat \<Rightarrow> nat option \<Rightarrow> nat" where
  "given_timeout dflt t = (case t of Some n \<Rightarrow> n | None \<Rightarrow> dflt)"

subsection \<open>A home page whose elements take time to appear\<close>






subsection \<open>Accounts and the wardrobe\<close>

text \<open>Modelled from the spec: the application under test, which is not under the source
  files. The specification names its pages (sign-up, onboarding, wardrobe, home), the
  labelled fields \<open>Email\<close> and \<open>Password\<close>, the buttons \<open>Sign Up\<close>, \<open>Get Started\<close> and
  \<open>Add Item\<close>, the flow "sign-up \<rightarrow> onboarding \<rightarrow> add wardrobe item", the detection of
  clothing in an uploaded image, and three texts: \<open>Item added successfully\<close>; for an image
  without clothing \<open>AI could not detect a clothing item. Please try another image.\<close>; and on
  the home page, for an account with "exactly one item of category \<open>Top\<close> and none of
  \<open>Bottom\<close>/\<open>Footwear\<close>", \<open>You need to add at least one of each: Bottom, Footwear.\<close>

  What the detection finds in a file, how long the application takes to show a text, and
  the default timeouts of the library are parameters.\<close>

datatype category = Top | Bottom | Footwear

record site =
  detect :: "string \<Rightarrow> category option"  \<comment> \<open>what the detection finds in a file\<close>
  lag :: "locator \<Rightarrow> nat"                 \<comment> \<open>ms until an element that is due is visible\<close>
  expect_default :: nat                  \<comment> \<open>timeout of \<open>expect(..)\<close> when none is passed\<close>
  wait_default :: nat                    \<comment> \<open>timeout of \<open>page.wait_for_..\<close> when none is passed\<close>

record app =
  clk :: nat                             \<comment> \<open>the time, in ms\<close>
  url :: string                          \<comment> \<open>the page that is open\<close>
  email_field :: string
  password_field :: string
  accounts :: "string list"              \<comment> \<open>the addresses that have signed up\<close>
  wardrobe :: "category list"            \<comment> \<open>the items of the account in use\<close>
  adding :: bool                         \<comment> \<open>the add-item form is open\<close>
  detected :: "category option"          \<comment> \<open>what was detected in the chosen image\<close>
  shown :: "(locator \<times> nat) list"        \<comment> \<open>texts on the page, each with the time it appears\<close>

definition fresh :: app where
  "fresh = \<lparr>clk = 0, url = [], email_field = [], password_field = [], accounts = [],
            wardrobe = [], adding = False, detected = None, shown = []\<rparr>"

definition signup_url :: string where
  "signup_url = ''http://localhost:3000/auth/sign-up''"

definition onboarding_url :: string where
  "onboarding_url = ''http://localhost:3000/onboarding''"

definition wardrobe_url :: string where
  "wardrobe_url = ''http://localhost:3000/wardrobe''"

text \<open>Modelled from the spec: the text of the home page. The specification fixes it for one
  wardrobe only, the one of the scenario; for every other wardrobe the model shows none.\<close>

definition home_message :: "category list \<Rightarrow> string option" where
  "home_message items =
     (if count_list items Top = 1 \<and> Bottom \<notin> set items \<and> Footwear \<notin> set items
      then Some ''You need to add at least one of each: Bottom, Footwear.''
      else None)"

text \<open>A text that becomes due now.\<close>

definition show_text :: "site \<Rightarrow> app \<Rightarrow> string \<Rightarrow> (locator \<times> nat) list" where
  "show_text cfg s m = [(ByText m, clk s + lag cfg (ByText m))]"

definition is_add_item :: "locator \<Rightarrow> bool" where
  \<open>is_add_item l = (l = ByRole ''button'' ''Add Item'' \<or> l = Css ''button:has-text("Add Item")'')\<close>

definition is_file_input :: "locator \<Rightarrow> bool" where
  \<open>is_file_input l = (l = Css ''input[type="file"]'')\<close>

text \<open>The time at which the text that a selector of the form \<open>text="..."\<close> stands for
  appears.\<close>

definition selected :: "string \<Rightarrow> (locator \<times> nat) list \<Rightarrow> nat option" where
  \<open>selected sel xs =
     map_option snd
       (find (\<lambda>(l, t). case l of ByText m \<Rightarrow> sel = ''text="'' @ m @ ''"'' | _ \<Rightarrow> False) xs)\<close>

definition await :: "app \<Rightarrow> nat option \<Rightarrow> nat \<Rightarrow> string option \<times> app" where
  "await s appears timeout =
     (case wait_until (clk s) appears timeout of
        (found, t) \<Rightarrow> (if found then None else Some ''Timeout exceeded'', s\<lparr>clk := t\<rparr>))"

text \<open>Modelled from the spec: the buttons. \<open>Sign Up\<close> opens an account for a new address,
  with an empty wardrobe, and leads to the onboarding; \<open>Get Started\<close> leads to the
  wardrobe; \<open>Add Item\<close> opens the add-item form and, in the open form, adds the item that
  was detected and confirms it.\<close>

definition click :: "site \<Rightarrow> app \<Rightarrow> locator \<Rightarrow> string option \<times> app" where
  "click cfg s l =
     (if l = ByRole ''button'' ''Sign Up'' \<and> url s = signup_url then
        (if email_field s \<noteq> [] \<and> password_field s \<noteq> [] \<and> email_field s \<notin> set (accounts s)
         then (None, s\<lparr>accounts := email_field s # accounts s, wardrobe := [],
                        url := onboarding_url, shown := []\<rparr>)
         else (None, s))
      else if l = ByRole ''button'' ''Get Started'' \<and> url s = onboarding_url then
        (None, s\<lparr>url := wardrobe_url, shown := []\<rparr>)
      else if is_add_item l \<and> url s = wardrobe_url then
        (if \<not> adding s then (None, s\<lparr>adding := True, detected := None, shown := []\<rparr>)
         else
           (case detected s of
              Some c \<Rightarrow>
                (None, s\<lparr>wardrobe := wardrobe s @ [c], adding := False, detected := None,
                          shown := show_text cfg s ''Item added successfully''\<rparr>)
            | None \<Rightarrow> (None, s)))
      else (Some ''no such element'', s))"

text \<open>Modelled from the spec: the upload in the add-item form. The detection runs on the
  chosen file; when it finds no clothing the rejection is shown.\<close>

definition choose_file :: "site \<Rightarrow> app \<Rightarrow> locator \<Rightarrow> string \<Rightarrow> string option \<times> app" where
  "choose_file cfg s l f =
     (if is_file_input l \<and> url s = wardrobe_url \<and> adding s then
        (case detect cfg f of
           Some c \<Rightarrow> (None, s\<lparr>detected := Some c\<rparr>)
         | None \<Rightarrow>
             (None, s\<lparr>detected := None,
                       shown := show_text cfg s
                         ''AI could not detect a clothing item. Please try another image.''\<rparr>))
      else (Some ''no such element'', s))"

text \<open>Modelled from the spec: the two fields of the sign-up page.\<close>

definition fill :: "app \<Rightarrow> locator \<Rightarrow> string \<Rightarrow> string option \<times> app" where
  "fill s l v =
     (if l = ByLabel ''Email'' \<and> url s = signup_url then (None, s\<lparr>email_field := v\<rparr>)
      else if l = ByLabel ''Password'' \<and> url s = signup_url then (None, s\<lparr>password_field := v\<rparr>)
      else (Some ''no such element'', s))"

text \<open>Modelled from the spec: navigation. Every page loads; the home page shows its text
  for the wardrobe of the account.\<close>

definition goto :: "site \<Rightarrow> app \<Rightarrow> string \<Rightarrow> string option \<times> app" where
  "goto cfg s u =
     (None, s\<lparr>url := u, adding := False, detected := None,
               shown := (if u = home
                         then (case home_message (wardrobe s) of
                                 Some m \<Rightarrow> show_text cfg s m | None \<Rightarrow> [])
                         else [])\<rparr>)"

text \<open>Modelled from the spec: the answer of the application to one call, and its state
  afterwards. Starting and closing the browser, screenshots and \<open>print\<close> leave the
  application as it is.\<close>

definition app_call :: "site \<Rightarrow> app \<Rightarrow> action \<Rightarrow> string option \<times> app" where
  "app_call cfg s a =
     (case a of
        Goto u \<Rightarrow> goto cfg s u
      | Fill l v \<Rightarrow> fill s l v
      | Click l \<Rightarrow> click cfg s l
      | SetInputFiles l f \<Rightarrow> choose_file cfg s l f
      | WaitForUrl u t \<Rightarrow>
          (if url s = u then (None, s)
           else (Some ''Timeout exceeded'', s\<lparr>clk := clk s + given_timeout (wait_default cfg) t\<rparr>))
      | WaitForSelector sel t \<Rightarrow>
          await s (selected sel (shown s)) (given_timeout (wait_default cfg) t)
      | ExpectVisible l t \<Rightarrow>
          await s (map_of (shown s) l) (given_timeout (expect_default cfg) t)
      | Sleep n \<Rightarrow> (None, s\<lparr>clk := clk s + n * 1000\<rparr>)
      | _ \<Rightarrow> (None, s))"

text \<open>Modelled from the spec: the application after a history of calls, and the
  application as a world.\<close>

definition after :: "site \<Rightarrow> app \<Rightarrow> action list \<Rightarrow> app" where
  "after cfg s h = foldl (\<lambda>s a. snd (app_call cfg s a)) s h"

definition app_world :: "site \<Rightarrow> app \<Rightarrow> world" where
  "app_world cfg s h a = fst (app_call cfg (after cfg s h) a)"

text \<open>A text is visible when it is on the page and its time has come.\<close>

definition visible :: "app \<Rightarrow> locator \<Rightarrow> bool" where
  "visible s l = (case map_of (shown s) l of Some t \<Rightarrow> t \<le> clk s | None \<Rightarrow> False)"

text \<open>An application used as a concrete input: the detection takes the placeholder image for
  a top and finds no clothing in any other file, every text takes 200 ms to appear, and the
  library waits 5 seconds for an \<open>expect\<close> and 30 seconds for a \<open>wait_for_selector\<close> that are
  passed no timeout.\<close>

definition site_a :: site where
  "site_a =
     \<lparr>detect = (\<lambda>f. if f = ''src/app/wardrobe/placeholder.png'' then Some Top else None),
      lag = (\<lambda>l. 200), expect_default = 5000, wait_default = 30000\<rparr>"

section \<open>Blocks of calls\<close>

text \<open>\<open>all_ok w h as\<close>: started after the calls \<open>h\<close>, every call of the block \<open>as\<close> returns.
  \<open>fails_at w h as k\<close>: the call at position \<open>k\<close> is the first one that raises.\<close>

definition all_ok :: "world \<Rightarrow> action list \<Rightarrow> action list \<Rightarrow> bool" where
  "all_ok w h as = (\<forall>j<length as. raises w (h @ take j as) (as ! j) = None)"

definition fails_at :: "world \<Rightarrow> action list \<Rightarrow> action list \<Rightarrow> nat \<Rightarrow> bool" where
  "fails_at w h as k =
     (k < length as \<and> all_ok w h (take k as) \<and> raises w (h @ take k as) (as ! k) \<noteq> None)"

lemma all_ok_Nil [simp]: "all_ok w h []"
  by (simp add: all_ok_def)

lemma all_ok_Cons:
  "all_ok w h (a # as) = (raises w h a = None \<and> all_ok w (h @ [a]) as)"
proof -
  have "(\<forall>j<Suc (length as). raises w (h @ take j (a # as)) ((a # as) ! j) = None)
        = (raises w h a = None \<and> (\<forall>j<length as. raises w (h @ a # take j as) (as ! j) = None))"
    by (simp add: All_less_Suc2)
  then show ?thesis by (simp add: all_ok_def)
qed

lemma all_ok_append:
  "all_ok w h (as @ bs) = (all_ok w h as \<and> all_ok w (h @ as) bs)"
  by (induction as arbitrary: h) (simp_all add: all_ok_Cons)

lemma run_calls_ok: "all_ok w h as \<Longrightarrow> run_calls as w h = (None, h @ as)"
  by (induction as arbitrary: h) (simp_all add: all_ok_Cons call_def)

lemma run_calls_fst: "(fst (run_calls as w h) = None) = all_ok w h as"
  by (induction as arbitrary: h) (auto simp: all_ok_Cons call_def split: option.splits)

lemma fails_at_0:
  "fails_at w h (a # as) 0 = (raises w h a \<noteq> None)"
  by (simp add: fails_at_def)

lemma fails_at_Suc:
  "fails_at w h (a # as) (Suc k) = (raises w h a = None \<and> fails_at w (h @ [a]) as k)"
  by (auto simp: fails_at_def all_ok_Cons)

lemma run_calls_fail:
  "fails_at w h as k \<Longrightarrow>
   run_calls as w h = (raises w (h @ take k as) (as ! k), h @ take (Suc k) as)"
proof (induction as arbitrary: h k)
  case Nil
  then show ?case by (simp add: fails_at_def)
next
  case (Cons a as)
  show ?case
  proof (cases k)
    case 0
    with Cons.prems show ?thesis
      by (auto simp: fails_at_0 call_def)
  next
    case (Suc k')
    with Cons.prems have ok: "raises w h a = None" and f: "fails_at w (h @ [a]) as k'"
      by (simp_all add: fails_at_Suc)
    from Cons.IH [OF f] ok Suc show ?thesis
      by (simp add: call_def)
  qed
qed

lemma ok_or_fails: "all_ok w h as \<or> (\<exists>k. fails_at w h as k)"
proof (induction as arbitrary: h)
  case Nil
  show ?case by simp
next
  case (Cons a as)
  show ?case
  proof (cases "raises w h a")
    case None
    from Cons.IH [of "h @ [a]"] show ?thesis
    proof
      assume "all_ok w (h @ [a]) as"
      with None show ?thesis by (simp add: all_ok_Cons)
    next
      assume "\<exists>k. fails_at w (h @ [a]) as k"
      then obtain k where "fails_at w (h @ [a]) as k" ..
      with None have "fails_at w h (a # as) (Suc k)" by (simp add: fails_at_Suc)
      then show ?thesis by blast
    qed
  next
    case (Some e)
    then have "fails_at w h (a # as) 0" by (simp add: fails_at_0)
    then show ?thesis by blast
  qed
qed

text \<open>A block only ever adds calls of its own to the history.\<close>

lemma run_calls_snd: "\<exists>n\<le>length as. snd (run_calls as w h) = h @ take n as"
proof (induction as arbitrary: h)
  case Nil
  show ?case by simp
next
  case (Cons a as)
  show ?case
  proof (cases "raises w h a")
    case None
    from Cons.IH [of "h @ [a]"] obtain n
      where "n \<le> length as" "snd (run_calls as w (h @ [a])) = (h @ [a]) @ take n as"
      by blast
    with None have "Suc n \<le> length (a # as) \<and>
        snd (run_calls (a # as) w h) = h @ take (Suc n) (a # as)"
      by (simp add: call_def)
    then show ?thesis by blast
  next
    case (Some e)
    then have "Suc 0 \<le> length (a # as) \<and>
        snd (run_calls (a # as) w h) = h @ take (Suc 0) (a # as)"
      by (simp add: call_def)
    then show ?thesis by blast
  qed
qed

section \<open>Composition\<close>

lemma fst_andthen: "(fst (andthen p q w h) = None) = (fst (p w h) = None \<and> fst (q w (snd (p w h))) = None)"
  by (auto simp: andthen_def split: prod.splits option.splits)

lemma snd_andthen: "snd (andthen p q w h) = (if fst (p w h) = None then snd (q w (snd (p w h))) else snd (p w h))"
  by (auto simp: andthen_def split: prod.splits option.splits)

lemma fst_try_finally: "(fst (try_finally p fin w h) = None) = (fst (p w h) = None \<and> fst (fin w (snd (p w h))) = None)"
  by (auto simp: try_finally_def split: prod.splits option.splits)

lemma snd_try_finally: "snd (try_finally p fin w h) = snd (fin w (snd (p w h)))"
  by (auto simp: try_finally_def split: prod.splits option.splits)

lemma fst_try_except: "(fst (try_except p hdl w h) = None) =
   (case fst (p w h) of None \<Rightarrow> True | Some e \<Rightarrow> fst (hdl e w (snd (p w h))) = None)"
  by (auto simp: try_except_def split: prod.splits option.splits)

lemma snd_try_except: "snd (try_except p hdl w h) =
   (case fst (p w h) of None \<Rightarrow> snd (p w h) | Some e \<Rightarrow> snd (hdl e w (snd (p w h))))"
  by (auto simp: try_except_def split: prod.splits option.splits)

lemma run_calls_snd_ok: "all_ok w h as \<Longrightarrow> snd (run_calls as w h) = h @ as"
  by (simp add: run_calls_ok)

lemma exit_status_0: "(exit_status r = 0) = (fst r = None)"
  by (simp add: exit_status_def split: option.splits)

lemma exit_status_1: "(exit_status r = Suc 0) = (fst r \<noteq> None)"
  by (simp add: exit_status_def split: option.splits)

lemma fst_guarded:
  "(fst (with_playwright (andthen (run_calls pre) (try_finally (run_calls steps) (run_calls fin))) w h) = None)
   = all_ok w h (PlaywrightStart # pre @ steps @ fin @ [PlaywrightStop])"
  unfolding with_playwright_def
  by (auto simp: fst_andthen fst_try_finally snd_andthen snd_try_finally run_calls_fst all_ok_append
        run_calls_snd_ok all_ok_Cons simp del: run_calls.simps)

lemma verify_main_pass_iff:
  "(exit_status (verify_main d w []) = 0) = all_ok w [] (session @ verify_steps d @ [BrowserClose, PlaywrightStop])"
  by (simp add: exit_status_0 verify_main_def fst_guarded session_def del: run_calls.simps)

lemma run_calls_single: "run_calls [a] w h = (raises w h a, h @ [a])"
  by (simp add: call_def split: option.splits)

lemma with_playwright_snd:
  "raises w h PlaywrightStart = None \<Longrightarrow>
   snd (with_playwright body w h) = snd (body w (h @ [PlaywrightStart])) @ [PlaywrightStop]"
  by (simp add: with_playwright_def snd_andthen snd_try_finally run_calls_single del: run_calls.simps)

lemma guarded_fail:
  assumes "all_ok w h (PlaywrightStart # pre)" and "fails_at w (h @ PlaywrightStart # pre) steps k"
  shows "snd (with_playwright (andthen (run_calls pre) (try_finally (run_calls steps) (run_calls fin))) w h)
         = snd (run_calls fin w (h @ PlaywrightStart # pre @ take (Suc k) steps)) @ [PlaywrightStop]"
    and "fst (with_playwright (andthen (run_calls pre) (try_finally (run_calls steps) (run_calls fin))) w h) \<noteq> None"
proof -
  from assms(1) have s: "raises w h PlaywrightStart = None" and p: "all_ok w (h @ [PlaywrightStart]) pre"
    by (simp_all add: all_ok_Cons)
  from assms(2) have f: "fails_at w ((h @ [PlaywrightStart]) @ pre) steps k" by simp
  show "snd (with_playwright (andthen (run_calls pre) (try_finally (run_calls steps) (run_calls fin))) w h)
         = snd (run_calls fin w (h @ PlaywrightStart # pre @ take (Suc k) steps)) @ [PlaywrightStop]"
    using s p run_calls_fail [OF f]
    by (simp add: with_playwright_snd snd_andthen snd_try_finally run_calls_ok del: run_calls.simps)
  from assms(2) have "\<not> all_ok w (h @ PlaywrightStart # pre) steps"
    by (auto simp: fails_at_def all_ok_def)
  then show "fst (with_playwright (andthen (run_calls pre) (try_finally (run_calls steps) (run_calls fin))) w h) \<noteq> None"
    by (simp add: fst_guarded all_ok_Cons all_ok_append)
qed

lemma guarded_ok_snd:
  assumes "all_ok w h (PlaywrightStart # pre @ steps)"
  shows "snd (with_playwright (andthen (run_calls pre) (try_finally (run_calls steps) (run_calls fin))) w h)
         = snd (run_calls fin w (h @ PlaywrightStart # pre @ steps)) @ [PlaywrightStop]"
  using assms
  by (simp add: all_ok_Cons all_ok_append with_playwright_snd snd_andthen snd_try_finally run_calls_ok del: run_calls.simps)

lemma handled_ok:
  assumes "all_ok w h (PlaywrightStart # pre @ steps)"
  shows "snd (with_playwright (andthen (run_calls pre)
            (try_finally (try_except (run_calls steps) (\<lambda>e. run_calls (hdl e))) (run_calls fin))) w h)
         = snd (run_calls fin w (h @ PlaywrightStart # pre @ steps)) @ [PlaywrightStop]"
    and "(fst (with_playwright (andthen (run_calls pre)
            (try_finally (try_except (run_calls steps) (\<lambda>e. run_calls (hdl e))) (run_calls fin))) w h) = None)
         = all_ok w (h @ PlaywrightStart # pre @ steps) (fin @ [PlaywrightStop])"
  using assms
  by (simp_all add: all_ok_Cons all_ok_append with_playwright_snd with_playwright_def fst_andthen fst_try_finally
        fst_try_except snd_try_except snd_andthen snd_try_finally run_calls_ok run_calls_fst run_calls_single
        del: run_calls.simps cong: conj_cong)

lemma handled_fail:
  assumes "all_ok w h (PlaywrightStart # pre)" and "fails_at w (h @ PlaywrightStart # pre) steps k"
    and "raises w (h @ PlaywrightStart # pre @ take k steps) (steps ! k) = Some e"
  shows "snd (with_playwright (andthen (run_calls pre)
            (try_finally (try_except (run_calls steps) (\<lambda>e. run_calls (hdl e))) (run_calls fin))) w h)
         = snd (run_calls fin w (snd (run_calls (hdl e) w (h @ PlaywrightStart # pre @ take (Suc k) steps))))
           @ [PlaywrightStop]"
    and "(fst (with_playwright (andthen (run_calls pre)
            (try_finally (try_except (run_calls steps) (\<lambda>e. run_calls (hdl e))) (run_calls fin))) w h) = None)
         = all_ok w (h @ PlaywrightStart # pre @ take (Suc k) steps) (hdl e @ fin @ [PlaywrightStop])"
proof -
  from assms(1) have s: "raises w h PlaywrightStart = None" and p: "all_ok w (h @ [PlaywrightStart]) pre"
    by (simp_all add: all_ok_Cons)
  from assms(2) have f: "fails_at w ((h @ [PlaywrightStart]) @ pre) steps k" by simp
  have r: "run_calls steps w (h @ PlaywrightStart # pre) = (Some e, h @ PlaywrightStart # pre @ take (Suc k) steps)"
    using run_calls_fail [OF f] assms(3) by simp
  show "snd (with_playwright (andthen (run_calls pre)
            (try_finally (try_except (run_calls steps) (\<lambda>e. run_calls (hdl e))) (run_calls fin))) w h)
         = snd (run_calls fin w (snd (run_calls (hdl e) w (h @ PlaywrightStart # pre @ take (Suc k) steps))))
           @ [PlaywrightStop]"
    using s p r
    by (simp add: with_playwright_snd snd_andthen snd_try_finally snd_try_except run_calls_ok del: run_calls.simps)
  show "(fst (with_playwright (andthen (run_calls pre)
            (try_finally (try_except (run_calls steps) (\<lambda>e. run_calls (hdl e))) (run_calls fin))) w h) = None)
         = all_ok w (h @ PlaywrightStart # pre @ take (Suc k) steps) (hdl e @ fin @ [PlaywrightStop])"
    using s p r
    by (auto simp add: with_playwright_def fst_andthen fst_try_finally
        fst_try_except snd_try_except snd_andthen snd_try_finally run_calls_ok run_calls_fst run_calls_single all_ok_append
        all_ok_Cons run_calls_snd_ok simp del: run_calls.simps)
qed


lemma handler_snd:
  "snd (run_calls [Print s, Screenshot p] w h) = h @ [Print s, Screenshot p]"
  by (simp add: call_def raises_def split: option.splits)

lemma closing_snd:
  "snd (run_calls [ContextClose, BrowserClose] w h) =
     h @ (if raises w h ContextClose = None then [ContextClose, BrowserClose] else [ContextClose])"
  by (simp add: call_def split: option.splits)

section \<open>Session teardown\<close>

lemmas ev = with_playwright_def andthen_def try_finally_def try_except_def call_def raises_def

lemma count_take_0: "x \<notin> set xs \<Longrightarrow> count_list (take n xs) x = 0"
  by (meson count_list_0_iff in_set_takeD)

lemma count_list_append: "count_list (xs @ ys) x = count_list xs x + count_list ys x"
  by (induction xs) simp_all

text \<open>In \<open>verify.py\<close> the \<open>finally\<close> block calls \<open>browser.close()\<close> exactly once on every
  path through the scenario, once the session has been acquired.\<close>

lemma verify_main_closes_once:
  assumes "all_ok w [] session"
  shows "count_list (snd (verify_main d w [])) BrowserClose = 1"
proof -
  have n: "BrowserClose \<notin> set (verify_steps d)" by (simp add: verify_steps_def)
  from ok_or_fails [of w session "verify_steps d"] show ?thesis
  proof
    assume "all_ok w session (verify_steps d)"
    with assms have "all_ok w [] (PlaywrightStart # [Launch (Some True), NewPage] @ verify_steps d)"
      by (simp add: session_def all_ok_Cons all_ok_append)
    from guarded_ok_snd [OF this] n show ?thesis
      by (simp add: verify_main_def run_calls_single count_list_append count_list_0_iff
          del: run_calls.simps)
  next
    assume "\<exists>k. fails_at w session (verify_steps d) k"
    then obtain k
      where k: "fails_at w ([] @ PlaywrightStart # [Launch (Some True), NewPage]) (verify_steps d) k"
      by (auto simp: session_def)
    from assms have "all_ok w [] (PlaywrightStart # [Launch (Some True), NewPage])"
      by (simp add: session_def)
    from guarded_fail(1) [OF this k] n show ?thesis
      by (simp add: verify_main_def run_calls_single count_list_append count_take_0
          del: run_calls.simps take_Suc_Cons)
  qed
qed

lemma handled_closes_once:
  assumes s: "all_ok w [] (PlaywrightStart # pre)"
    and n: "BrowserClose \<notin> set (PlaywrightStart # pre @ steps)"
    and hn: "\<And>e h. count_list (snd (run_calls (hdl e) w h)) BrowserClose = count_list h BrowserClose"
  shows "count_list (snd (with_playwright (andthen (run_calls pre)
            (try_finally (try_except (run_calls steps) (\<lambda>e. run_calls (hdl e)))
               (run_calls [BrowserClose]))) w [])) BrowserClose = 1"
proof -
  from ok_or_fails [of w "[] @ PlaywrightStart # pre" steps] show ?thesis
  proof
    assume "all_ok w ([] @ PlaywrightStart # pre) steps"
    with s have "all_ok w [] (PlaywrightStart # pre @ steps)"
      by (simp add: all_ok_Cons all_ok_append)
    from handled_ok(1) [OF this, of hdl "[BrowserClose]"] n show ?thesis
      by (simp add: run_calls_single count_list_append count_list_0_iff del: run_calls.simps)
  next
    assume "\<exists>k. fails_at w ([] @ PlaywrightStart # pre) steps k"
    then obtain k where k: "fails_at w ([] @ PlaywrightStart # pre) steps k" ..
    then obtain e where e: "raises w ([] @ PlaywrightStart # pre @ take k steps) (steps ! k) = Some e"
      by (auto simp: fails_at_def)
    from n have "count_list (take (Suc k) steps) BrowserClose = 0"
      by (intro count_take_0) simp
    with handled_fail(1) [OF s k e, of hdl "[BrowserClose]"] n hn show ?thesis
      by (simp add: run_calls_single count_list_append count_list_0_iff
          del: run_calls.simps take_Suc_Cons)
  qed
qed

text \<open>So do \<open>verify_feedback_feature.py\<close> and \<open>verify_virtual_try_on.py\<close>, whose handler
  makes no call of \<open>browser.close()\<close> itself.\<close>

lemma feedback_closes_once:
  assumes "all_ok w [] session"
  shows "count_list (snd (feedback_run_verification w [])) BrowserClose = 1"
  unfolding feedback_run_verification_def
  using assms
  by (intro handled_closes_once)
    (simp_all add: session_def feedback_steps_def feedback_handler_def handler_snd count_list_append
      del: run_calls.simps)

lemma try_on_closes_once:
  assumes "all_ok w [] session"
  shows "count_list (snd (try_on_run_verification w [])) BrowserClose = 1"
  unfolding try_on_run_verification_def
  using assms
  by (intro handled_closes_once)
    (simp_all add: session_def try_on_steps_def try_on_handler_def handler_snd count_list_append
      del: run_calls.simps)

text \<open>
  Claim C1: for every scenario run the browser session is torn down exactly once, on every
  exit path, also when a step raises in the middle of the scenario.

  \<open>verify_update.py\<close> has no \<open>try\<close>/\<open>finally\<close>: \<open>browser.close()\<close> is the last statement of
  \<open>run\<close>. With the application not running, \<open>page.goto\<close> raises, the rest of \<open>run\<close> is
  skipped, and the run ends with the exception without any call of \<open>browser.close()\<close>; only
  the enclosing \<open>with sync_playwright()\<close> is left.
\<close>

theorem update_run_leaves_browser_open:
  "update_script w_down [] =
     (Some ''net::ERR_CONNECTION_REFUSED'',
      [PlaywrightStart, Launch None, NewPage, Sleep 5,
       Goto ''http://localhost:3000/wardrobe'', PlaywrightStop])
   \<and> count_list (snd (update_script w_down [])) BrowserClose = 0"
  by (simp add: update_script_def update_run_def update_calls_def ev w_down_def)

section \<open>What a failing step does\<close>

text \<open>
  Claim C2, as stated: when a step fails, no later step runs, the scenario is marked failed,
  and an error screenshot is captured before teardown.

  In \<open>verify.py\<close> the \<open>try\<close> block has a \<open>finally\<close> and no \<open>except\<close>: with the application
  not running, the first navigation raises, the run fails with that exception, and no
  screenshot of any kind is taken on the way out.
\<close>

theorem verify_main_takes_no_error_screenshot:
  "fst (verify_main draws_a w_down []) = Some ''net::ERR_CONNECTION_REFUSED''
   \<and> filter is_screenshot (snd (verify_main draws_a w_down [])) = []"
  by (simp add: verify_main_def verify_steps_def ev w_down_def)

text \<open>
  Claim C2, amended: in every script that guards its steps with \<open>try\<close>, the first step that
  raises is the last step of the scenario that runs, and \<open>browser.close()\<close> is still
  called (in \<open>verify_invalid_image.py\<close> after \<open>context.close()\<close>, if that returns). In
  \<open>verify.py\<close> and \<open>verify_invalid_image.py\<close> the run then fails, and nothing but the
  closing calls follows the failing step: no error screenshot. In
  \<open>verify_feedback_feature.py\<close> and \<open>verify_virtual_try_on.py\<close> the handler prints the error
  and asks for an error screenshot before \<open>browser.close()\<close>.
\<close>

theorem failing_step_aborts_scenario:
  "(all_ok w [] session \<and> fails_at w session (verify_steps d) k \<longrightarrow>
      fst (verify_main d w []) \<noteq> None \<and>
      snd (verify_main d w []) =
        session @ take (Suc k) (verify_steps d) @ [BrowserClose, PlaywrightStop])
   \<and> (all_ok w [] invalid_image_session \<and> fails_at w invalid_image_session invalid_image_steps k \<longrightarrow>
      fst (invalid_image_script w []) \<noteq> None \<and>
      snd (invalid_image_script w []) =
        invalid_image_session @ take (Suc k) invalid_image_steps @
        (if raises w (invalid_image_session @ take (Suc k) invalid_image_steps) ContextClose = None
         then [ContextClose, BrowserClose, PlaywrightStop] else [ContextClose, PlaywrightStop]))
   \<and> (all_ok w [] session \<and> fails_at w session feedback_steps k \<and>
       raises w (session @ take k feedback_steps) (feedback_steps ! k) = Some e \<longrightarrow>
      snd (feedback_run_verification w []) =
        session @ take (Suc k) feedback_steps @ feedback_handler e @ [BrowserClose, PlaywrightStop])
   \<and> (all_ok w [] session \<and> fails_at w session try_on_steps k \<and>
       raises w (session @ take k try_on_steps) (try_on_steps ! k) = Some e \<longrightarrow>
      snd (try_on_run_verification w []) =
        session @ take (Suc k) try_on_steps @ try_on_handler e @ [BrowserClose, PlaywrightStop])"
proof -
  have c1: "fst (verify_main d w []) \<noteq> None \<and>
      snd (verify_main d w []) =
        session @ take (Suc k) (verify_steps d) @ [BrowserClose, PlaywrightStop]"
    if a: "all_ok w [] session" "fails_at w session (verify_steps d) k"
  proof -
    from a have a': "all_ok w [] (PlaywrightStart # [Launch (Some True), NewPage])"
      "fails_at w ([] @ PlaywrightStart # [Launch (Some True), NewPage]) (verify_steps d) k"
      by (simp_all add: session_def)
    from guarded_fail [OF a', of "[BrowserClose]"] show ?thesis
      by (simp add: verify_main_def session_def run_calls_single del: run_calls.simps take_Suc_Cons)
  qed
  have c2: "fst (invalid_image_script w []) \<noteq> None \<and>
      snd (invalid_image_script w []) =
        invalid_image_session @ take (Suc k) invalid_image_steps @
        (if raises w (invalid_image_session @ take (Suc k) invalid_image_steps) ContextClose = None
         then [ContextClose, BrowserClose, PlaywrightStop] else [ContextClose, PlaywrightStop])"
    if a: "all_ok w [] invalid_image_session" "fails_at w invalid_image_session invalid_image_steps k"
  proof -
    from a have a': "all_ok w [] (PlaywrightStart # [Launch (Some True), NewContext, NewPage])"
      "fails_at w ([] @ PlaywrightStart # [Launch (Some True), NewContext, NewPage]) invalid_image_steps k"
      by (simp_all add: invalid_image_session_def)
    from guarded_fail [OF a', of "[ContextClose, BrowserClose]"] show ?thesis
      by (simp add: invalid_image_script_def invalid_image_run_def invalid_image_session_def closing_snd
          del: run_calls.simps take_Suc_Cons)
  qed
  have c3: "snd (feedback_run_verification w []) =
        session @ take (Suc k) feedback_steps @ feedback_handler e @ [BrowserClose, PlaywrightStop]"
    if a: "all_ok w [] session" "fails_at w session feedback_steps k"
      "raises w (session @ take k feedback_steps) (feedback_steps ! k) = Some e"
  proof -
    from a have a': "all_ok w [] (PlaywrightStart # [Launch (Some True), NewPage])"
      "fails_at w ([] @ PlaywrightStart # [Launch (Some True), NewPage]) feedback_steps k"
      "raises w ([] @ PlaywrightStart # [Launch (Some True), NewPage] @ take k feedback_steps)
         (feedback_steps ! k) = Some e"
      by (simp_all add: session_def)
    from handled_fail(1) [OF a', of feedback_handler "[BrowserClose]"] show ?thesis
      by (simp add: feedback_run_verification_def session_def run_calls_single feedback_handler_def
          handler_snd del: run_calls.simps take_Suc_Cons)
  qed
  have c4: "snd (try_on_run_verification w []) =
        session @ take (Suc k) try_on_steps @ try_on_handler e @ [BrowserClose, PlaywrightStop]"
    if a: "all_ok w [] session" "fails_at w session try_on_steps k"
      "raises w (session @ take k try_on_steps) (try_on_steps ! k) = Some e"
  proof -
    from a have a': "all_ok w [] (PlaywrightStart # [Launch (Some True), NewPage])"
      "fails_at w ([] @ PlaywrightStart # [Launch (Some True), NewPage]) try_on_steps k"
      "raises w ([] @ PlaywrightStart # [Launch (Some True), NewPage] @ take k try_on_steps)
         (try_on_steps ! k) = Some e"
      by (simp_all add: session_def)
    from handled_fail(1) [OF a', of try_on_handler "[BrowserClose]"] show ?thesis
      by (simp add: try_on_run_verification_def session_def run_calls_single try_on_handler_def
          handler_snd del: run_calls.simps take_Suc_Cons)
  qed
  from c1 c2 c3 c4 show ?thesis by blast
qed

lemmas wd = all_ok_Cons fails_at_def raises_def w_down_def session_def invalid_image_session_def

text \<open>The amended claim at the world in which the application is not running: the first
  step of each of the four scripts is the navigation, and it raises.\<close>

theorem failing_step_aborts_scenario_witness:
  "fst (verify_main draws_a w_down []) \<noteq> None
   \<and> snd (verify_main draws_a w_down []) =
       session @ take 1 (verify_steps draws_a) @ [BrowserClose, PlaywrightStop]
   \<and> fst (invalid_image_script w_down []) \<noteq> None
   \<and> snd (invalid_image_script w_down []) =
       invalid_image_session @ take 1 invalid_image_steps @ [ContextClose, BrowserClose, PlaywrightStop]
   \<and> snd (feedback_run_verification w_down []) =
       session @ take 1 feedback_steps @ feedback_handler ''net::ERR_CONNECTION_REFUSED''
         @ [BrowserClose, PlaywrightStop]
   \<and> snd (try_on_run_verification w_down []) =
       session @ take 1 try_on_steps @ try_on_handler ''net::ERR_CONNECTION_REFUSED''
         @ [BrowserClose, PlaywrightStop]"
proof -
  have s: "all_ok w_down [] session" "all_ok w_down [] invalid_image_session"
    by (simp_all add: wd)
  have f: "fails_at w_down session (verify_steps draws_a) 0"
    "fails_at w_down invalid_image_session invalid_image_steps 0"
    "fails_at w_down session feedback_steps 0"
    "fails_at w_down session try_on_steps 0"
    by (simp_all add: wd verify_steps_def invalid_image_steps_def feedback_steps_def try_on_steps_def)
  have r: "raises w_down (session @ take 0 feedback_steps) (feedback_steps ! 0) = Some ''net::ERR_CONNECTION_REFUSED''"
    "raises w_down (session @ take 0 try_on_steps) (try_on_steps ! 0) = Some ''net::ERR_CONNECTION_REFUSED''"
    by (simp_all add: wd feedback_steps_def try_on_steps_def)
  have c: "raises w_down (invalid_image_session @ take (Suc 0) invalid_image_steps) ContextClose = None"
    by (simp add: raises_def w_down_def)
  from failing_step_aborts_scenario [of w_down draws_a 0 "''net::ERR_CONNECTION_REFUSED''"] s f r c
  show ?thesis by simp
qed

section \<open>The exit status\<close>

lemma fst_unguarded:
  "(fst (with_playwright (run_calls cs) w h) = None)
   = all_ok w h (PlaywrightStart # cs @ [PlaywrightStop])"
  unfolding with_playwright_def
  by (auto simp: fst_andthen fst_try_finally run_calls_fst all_ok_append
        run_calls_snd_ok all_ok_Cons run_calls_single simp del: run_calls.simps)

text \<open>
  Claim C3, as stated: the exit status of every scenario is non-zero whenever a step, an
  assertion or a navigation failed.

  In \<open>verify_feedback_feature.py\<close> the \<open>except Exception\<close> handler catches the failure, prints
  it and takes a screenshot; nothing is raised again. With the application not running the
  navigation raises, and the script ends normally, with exit status 0.
\<close>

theorem feedback_failure_exits_zero:
  "raises w_down session (feedback_steps ! 0) = Some ''net::ERR_CONNECTION_REFUSED''
   \<and> exit_status (feedback_run_verification w_down []) = 0
   \<and> snd (feedback_run_verification w_down []) =
       [PlaywrightStart, Launch (Some True), NewPage, Goto ''http://localhost:3000'',
        Print ''An error occurred: net::ERR_CONNECTION_REFUSED'',
        Screenshot ''jules-scratch/verification/error.png'', BrowserClose, PlaywrightStop]"
  by (simp add: feedback_run_verification_def feedback_steps_def feedback_handler_def home_def
      exit_status_def session_def ev w_down_def)

text \<open>
  Claim C3, amended: the exit status is non-zero exactly when an exception leaves the
  script. In \<open>verify.py\<close>, \<open>verify_invalid_image.py\<close> and \<open>verify_update.py\<close> that is the case
  as soon as one call raises: the exit status is 0 if and only if every call of the script
  returns. In \<open>verify_feedback_feature.py\<close> and \<open>verify_virtual_try_on.py\<close> a step that raises
  inside the \<open>try\<close> block is caught and reported on standard output and by an error
  screenshot; the exit status is then 0 if and only if that screenshot, \<open>browser.close()\<close>
  and the shutdown of Playwright return.
\<close>

theorem exit_status_tells_uncaught_failure:
  "(exit_status (verify_main d w []) = 0 \<longleftrightarrow>
      all_ok w [] (session @ verify_steps d @ [BrowserClose, PlaywrightStop]))
   \<and> (exit_status (invalid_image_script w []) = 0 \<longleftrightarrow>
      all_ok w [] (invalid_image_session @ invalid_image_steps @
                   [ContextClose, BrowserClose, PlaywrightStop]))
   \<and> (exit_status (update_script w []) = 0 \<longleftrightarrow>
      all_ok w [] (PlaywrightStart # update_calls @ [PlaywrightStop]))
   \<and> (all_ok w [] session \<and> fails_at w session feedback_steps k \<and>
       raises w (session @ take k feedback_steps) (feedback_steps ! k) = Some e \<longrightarrow>
      (exit_status (feedback_run_verification w []) = 0 \<longleftrightarrow>
       all_ok w (session @ take (Suc k) feedback_steps)
         (feedback_handler e @ [BrowserClose, PlaywrightStop])))
   \<and> (all_ok w [] session \<and> fails_at w session try_on_steps k \<and>
       raises w (session @ take k try_on_steps) (try_on_steps ! k) = Some e \<longrightarrow>
      (exit_status (try_on_run_verification w []) = 0 \<longleftrightarrow>
       all_ok w (session @ take (Suc k) try_on_steps)
         (try_on_handler e @ [BrowserClose, PlaywrightStop])))"
proof -
  have c1: "exit_status (verify_main d w []) = 0 \<longleftrightarrow>
      all_ok w [] (session @ verify_steps d @ [BrowserClose, PlaywrightStop])"
    by (rule verify_main_pass_iff)
  have c2: "exit_status (invalid_image_script w []) = 0 \<longleftrightarrow>
      all_ok w [] (invalid_image_session @ invalid_image_steps @
                   [ContextClose, BrowserClose, PlaywrightStop])"
    by (simp add: exit_status_0 invalid_image_script_def invalid_image_run_def fst_guarded
        invalid_image_session_def del: run_calls.simps)
  have c3: "exit_status (update_script w []) = 0 \<longleftrightarrow>
      all_ok w [] (PlaywrightStart # update_calls @ [PlaywrightStop])"
    by (simp add: exit_status_0 update_script_def update_run_def fst_unguarded del: run_calls.simps)
  have c4: "exit_status (feedback_run_verification w []) = 0 \<longleftrightarrow>
       all_ok w (session @ take (Suc k) feedback_steps)
         (feedback_handler e @ [BrowserClose, PlaywrightStop])"
    if a: "all_ok w [] session" "fails_at w session feedback_steps k"
      "raises w (session @ take k feedback_steps) (feedback_steps ! k) = Some e"
  proof -
    from a have a': "all_ok w [] (PlaywrightStart # [Launch (Some True), NewPage])"
      "fails_at w ([] @ PlaywrightStart # [Launch (Some True), NewPage]) feedback_steps k"
      "raises w ([] @ PlaywrightStart # [Launch (Some True), NewPage] @ take k feedback_steps)
         (feedback_steps ! k) = Some e"
      by (simp_all add: session_def)
    from handled_fail(2) [OF a', of feedback_handler "[BrowserClose]"] show ?thesis
      by (simp add: exit_status_0 feedback_run_verification_def session_def
          del: run_calls.simps take_Suc_Cons)
  qed
  have c5: "exit_status (try_on_run_verification w []) = 0 \<longleftrightarrow>
       all_ok w (session @ take (Suc k) try_on_steps)
         (try_on_handler e @ [BrowserClose, PlaywrightStop])"
    if a: "all_ok w [] session" "fails_at w session try_on_steps k"
      "raises w (session @ take k try_on_steps) (try_on_steps ! k) = Some e"
  proof -
    from a have a': "all_ok w [] (PlaywrightStart # [Launch (Some True), NewPage])"
      "fails_at w ([] @ PlaywrightStart # [Launch (Some True), NewPage]) try_on_steps k"
      "raises w ([] @ PlaywrightStart # [Launch (Some True), NewPage] @ take k try_on_steps)
         (try_on_steps ! k) = Some e"
      by (simp_all add: session_def)
    from handled_fail(2) [OF a', of try_on_handler "[BrowserClose]"] show ?thesis
      by (simp add: exit_status_0 try_on_run_verification_def session_def
          del: run_calls.simps take_Suc_Cons)
  qed
  from c1 c2 c3 c4 c5 show ?thesis by blast
qed

text \<open>The amended claim with the application not running: the three scripts without a
  handler exit with a non-zero status, the two with a handler exit with 0.\<close>

theorem exit_status_tells_uncaught_failure_witness:
  "exit_status (verify_main draws_a w_down []) \<noteq> 0
   \<and> exit_status (invalid_image_script w_down []) \<noteq> 0
   \<and> exit_status (update_script w_down []) \<noteq> 0
   \<and> exit_status (feedback_run_verification w_down []) = 0
   \<and> exit_status (try_on_run_verification w_down []) = 0"
proof -
  have s: "all_ok w_down [] session"
    by (simp add: wd)
  have f: "fails_at w_down session feedback_steps 0" "fails_at w_down session try_on_steps 0"
    by (simp_all add: wd feedback_steps_def try_on_steps_def)
  have r: "raises w_down (session @ take 0 feedback_steps) (feedback_steps ! 0)
             = Some ''net::ERR_CONNECTION_REFUSED''"
    "raises w_down (session @ take 0 try_on_steps) (try_on_steps ! 0)
             = Some ''net::ERR_CONNECTION_REFUSED''"
    by (simp_all add: wd feedback_steps_def try_on_steps_def)
  have n: "\<not> all_ok w_down [] (session @ verify_steps draws_a @ [BrowserClose, PlaywrightStop])"
    "\<not> all_ok w_down [] (invalid_image_session @ invalid_image_steps @
                   [ContextClose, BrowserClose, PlaywrightStop])"
    "\<not> all_ok w_down [] (PlaywrightStart # update_calls @ [PlaywrightStop])"
    by (simp_all add: wd verify_steps_def invalid_image_steps_def update_calls_def)
  have h: "all_ok w_down (session @ take (Suc 0) feedback_steps)
         (feedback_handler ''net::ERR_CONNECTION_REFUSED'' @ [BrowserClose, PlaywrightStop])"
    "all_ok w_down (session @ take (Suc 0) try_on_steps)
         (try_on_handler ''net::ERR_CONNECTION_REFUSED'' @ [BrowserClose, PlaywrightStop])"
    by (simp_all add: wd feedback_handler_def try_on_handler_def)
  from exit_status_tells_uncaught_failure [of draws_a w_down 0 "''net::ERR_CONNECTION_REFUSED''"]
    s f r n h
  show ?thesis by simp
qed

section \<open>Screenshots that cannot be written\<close>

text \<open>
  Claim C5, as stated: a failure while writing a screenshot never changes the outcome of
  the scenario.

  In \<open>verify.py\<close> a screenshot is a statement of the \<open>try\<close> block like any other. Against the
  same application, the run passes when the screenshots can be written and fails when they
  cannot.
\<close>

theorem screenshot_failure_changes_outcome:
  "exit_status (verify_main draws_a w_ok []) = 0
   \<and> exit_status (verify_main draws_a w_disk_full []) = 1"
  by (simp add: verify_main_def verify_steps_def exit_status_def ev w_ok_def w_disk_full_def)

text \<open>
  Claim C5, amended: a screenshot that cannot be written is handled like any other failing
  call. In \<open>verify.py\<close> it fails the run: whenever the first call that raises is a
  screenshot, the exit status is 1. In \<open>verify_feedback_feature.py\<close> a failure in the \<open>try\<close>
  block is caught, but when the error screenshot of the handler raises in turn, the run ends
  with exit status 1.
\<close>

theorem screenshot_failure_is_a_step_failure:
  "(all_ok w [] session \<and> fails_at w session (verify_steps d) k \<and>
       is_screenshot (verify_steps d ! k) \<longrightarrow>
      exit_status (verify_main d w []) = 1)
   \<and> (all_ok w [] session \<and> fails_at w session feedback_steps j \<and>
       raises w (session @ take j feedback_steps) (feedback_steps ! j) = Some e \<and>
       raises w (session @ take (Suc j) feedback_steps @ [Print (''An error occurred: '' @ e)])
         (Screenshot ''jules-scratch/verification/error.png'') \<noteq> None \<longrightarrow>
      exit_status (feedback_run_verification w []) = 1)"
proof -
  have c1: "exit_status (verify_main d w []) = 1"
    if a: "all_ok w [] session" "fails_at w session (verify_steps d) k"
  proof -
    from a have a': "all_ok w [] (PlaywrightStart # [Launch (Some True), NewPage])"
      "fails_at w ([] @ PlaywrightStart # [Launch (Some True), NewPage]) (verify_steps d) k"
      by (simp_all add: session_def)
    from guarded_fail(2) [OF a', of "[BrowserClose]"] show ?thesis
      by (simp add: exit_status_1 verify_main_def del: run_calls.simps)
  qed
  have c2: "exit_status (feedback_run_verification w []) = 1"
    if a: "all_ok w [] session" "fails_at w session feedback_steps j"
      "raises w (session @ take j feedback_steps) (feedback_steps ! j) = Some e"
      and b: "raises w (session @ take (Suc j) feedback_steps @ [Print (''An error occurred: '' @ e)])
         (Screenshot ''jules-scratch/verification/error.png'') \<noteq> None"
  proof -
    from a have a': "all_ok w [] (PlaywrightStart # [Launch (Some True), NewPage])"
      "fails_at w ([] @ PlaywrightStart # [Launch (Some True), NewPage]) feedback_steps j"
      "raises w ([] @ PlaywrightStart # [Launch (Some True), NewPage] @ take j feedback_steps)
         (feedback_steps ! j) = Some e"
      by (simp_all add: session_def)
    from b have "\<not> all_ok w (session @ take (Suc j) feedback_steps)
         (feedback_handler e @ [BrowserClose] @ [PlaywrightStop])"
      by (simp add: feedback_handler_def all_ok_Cons del: take_Suc_Cons)
    with handled_fail(2) [OF a', of feedback_handler "[BrowserClose]"] show ?thesis
      by (simp add: exit_status_1 feedback_run_verification_def session_def
          del: run_calls.simps take_Suc_Cons)
  qed
  from c1 c2 show ?thesis by blast
qed

lemmas wf = all_ok_Cons fails_at_def raises_def w_disk_full_def session_def

text \<open>The amended claim at the world in which no screenshot can be written: in \<open>verify.py\<close>
  the screenshot of the sign-up page is the first call that raises; in
  \<open>verify_feedback_feature.py\<close> the screenshot of the feature is, and the error screenshot
  raises too.\<close>

theorem screenshot_failure_is_a_step_failure_witness:
  "exit_status (verify_main draws_a w_disk_full []) = 1
   \<and> exit_status (feedback_run_verification w_disk_full []) = 1"
proof -
  have s: "all_ok w_disk_full [] session"
    by (simp add: wf)
  have f: "fails_at w_disk_full session (verify_steps draws_a) 1"
    "is_screenshot (verify_steps draws_a ! 1)"
    "fails_at w_disk_full session feedback_steps 5"
    by (simp_all add: wf verify_steps_def feedback_steps_def)
  have r: "raises w_disk_full (session @ take 5 feedback_steps) (feedback_steps ! 5) = Some ''ENOSPC''"
    "raises w_disk_full
       (session @ take (Suc 5) feedback_steps @ [Print (''An error occurred: '' @ ''ENOSPC'')])
       (Screenshot ''jules-scratch/verification/error.png'') \<noteq> None"
    by (simp_all add: wf feedback_steps_def)
  from screenshot_failure_is_a_step_failure [of w_disk_full draws_a 1 5 "''ENOSPC''"] s f r
  show ?thesis by simp
qed

section \<open>Waits and sleeps\<close>

text \<open>A property of single calls that holds of every call a script can make holds of every
  call it has made, whatever the world answers.\<close>

lemma inv_run_calls:
  "list_all P as \<Longrightarrow> list_all P h \<Longrightarrow> list_all P (snd (run_calls as w h))"
proof -
  assume a: "list_all P as" "list_all P h"
  obtain n where "snd (run_calls as w h) = h @ take n as"
    using run_calls_snd by blast
  with a show ?thesis
    by (auto simp: list_all_iff dest: in_set_takeD)
qed

lemma inv_andthen:
  assumes "\<And>h. list_all P h \<Longrightarrow> list_all P (snd (p w h))"
    and "\<And>h. list_all P h \<Longrightarrow> list_all P (snd (q w h))"
    and "list_all P h"
  shows "list_all P (snd (andthen p q w h))"
  using assms by (simp add: snd_andthen)

lemma inv_try_finally:
  assumes "\<And>h. list_all P h \<Longrightarrow> list_all P (snd (p w h))"
    and "\<And>h. list_all P h \<Longrightarrow> list_all P (snd (q w h))"
    and "list_all P h"
  shows "list_all P (snd (try_finally p q w h))"
  using assms by (simp add: snd_try_finally)

lemma inv_try_except:
  assumes "\<And>h. list_all P h \<Longrightarrow> list_all P (snd (p w h))"
    and "\<And>e h. list_all P h \<Longrightarrow> list_all P (snd (hdl e w h))"
    and "list_all P h"
  shows "list_all P (snd (try_except p hdl w h))"
  using assms by (simp add: snd_try_except split: option.splits)

lemma inv_with_playwright:
  assumes "P PlaywrightStart" and "P PlaywrightStop"
    and "\<And>h. list_all P h \<Longrightarrow> list_all P (snd (body w h))"
    and "list_all P h"
  shows "list_all P (snd (with_playwright body w h))"
  unfolding with_playwright_def
  using assms by (intro inv_andthen inv_try_finally inv_run_calls) simp_all

lemma inv_guarded:
  assumes "list_all P (PlaywrightStart # pre @ steps @ fin @ [PlaywrightStop])"
  shows "list_all P (snd (with_playwright
            (andthen (run_calls pre) (try_finally (run_calls steps) (run_calls fin))) w []))"
  using assms
  by (intro inv_with_playwright inv_andthen inv_try_finally inv_run_calls) simp_all

lemma inv_handled:
  assumes "list_all P (PlaywrightStart # pre @ steps @ fin @ [PlaywrightStop])"
    and "\<And>e. list_all P (hdl e)"
  shows "list_all P (snd (with_playwright
            (andthen (run_calls pre)
               (try_finally (try_except (run_calls steps) (\<lambda>e. run_calls (hdl e))) (run_calls fin))) w []))"
  using assms
  by (intro inv_with_playwright inv_andthen inv_try_finally inv_try_except inv_run_calls) simp_all

text \<open>
  Claim C8, as stated: every wait for the user interface is a condition-polling wait
  bounded by an explicit timeout, and no scenario uses a fixed sleep.

  \<open>verify_update.py\<close> starts with \<open>time.sleep(5)\<close>, and the waits of \<open>verify.py\<close> pass no
  timeout.
\<close>

theorem update_script_sleeps:
  "Sleep 5 \<in> set (snd (update_script w_ok [])) \<and> fixed_sleep (Sleep 5)
   \<and> WaitForUrl ''http://localhost:3000/onboarding'' None \<in> set (snd (verify_main draws_a w_ok []))
   \<and> explicit_timeout (WaitForUrl ''http://localhost:3000/onboarding'' None) = None"
  by (simp add: update_script_def update_run_def update_calls_def verify_main_def verify_steps_def
      ev w_ok_def)

text \<open>
  Claim C8, amended: apart from \<open>verify_update.py\<close>, no scenario uses a fixed sleep, whatever
  the application does; their waits are condition waits (\<open>expect(..).to_be_visible\<close>,
  \<open>wait_for_url\<close>, \<open>wait_for_selector\<close>). Two of those waits are bounded by an explicit
  timeout, the one for the outfit recommender (15000 ms) and the one for the try-on heading
  (10000 ms); every other wait is passed no timeout and is bounded by the library's default.
\<close>

theorem no_fixed_sleep_outside_update:
  "(a \<in> set (snd (verify_main d w [])) \<or> a \<in> set (snd (invalid_image_script w [])) \<longrightarrow>
      \<not> fixed_sleep a \<and> explicit_timeout a = None)
   \<and> (a \<in> set (snd (feedback_run_verification w [])) \<longrightarrow>
      \<not> fixed_sleep a \<and>
      (explicit_timeout a = None \<or> a = ExpectVisible outfit_recommender (Some 15000)))
   \<and> (a \<in> set (snd (try_on_run_verification w [])) \<longrightarrow>
      \<not> fixed_sleep a \<and>
      (explicit_timeout a = None \<or> a = ExpectVisible try_on_heading (Some 10000)))"
proof -
  have c1: "list_all (\<lambda>a. \<not> fixed_sleep a \<and> explicit_timeout a = None) (snd (verify_main d w []))"
    unfolding verify_main_def
    by (rule inv_guarded) (simp add: verify_steps_def)
  have c2: "list_all (\<lambda>a. \<not> fixed_sleep a \<and> explicit_timeout a = None) (snd (invalid_image_script w []))"
    unfolding invalid_image_script_def invalid_image_run_def
    by (rule inv_guarded) (simp add: invalid_image_steps_def)
  have c3: "list_all (\<lambda>a. \<not> fixed_sleep a \<and>
      (explicit_timeout a = None \<or> a = ExpectVisible outfit_recommender (Some 15000)))
      (snd (feedback_run_verification w []))"
    unfolding feedback_run_verification_def
    by (rule inv_handled) (simp_all add: feedback_steps_def feedback_handler_def)
  have c4: "list_all (\<lambda>a. \<not> fixed_sleep a \<and>
      (explicit_timeout a = None \<or> a = ExpectVisible try_on_heading (Some 10000)))
      (snd (try_on_run_verification w []))"
    unfolding try_on_run_verification_def
    by (rule inv_handled) (simp_all add: try_on_steps_def try_on_handler_def)
  from c1 c2 c3 c4 show ?thesis
    by (auto simp: list_all_iff)
qed

text \<open>The amended claim at three calls that the scripts make when every call returns.\<close>

theorem no_fixed_sleep_outside_update_witness:
  "WaitForUrl ''http://localhost:3000/onboarding'' None \<in> set (snd (verify_main draws_a w_ok []))
   \<and> \<not> fixed_sleep (WaitForUrl ''http://localhost:3000/onboarding'' None)
   \<and> ExpectVisible outfit_recommender (Some 15000) \<in> set (snd (feedback_run_verification w_ok []))
   \<and> \<not> fixed_sleep (ExpectVisible outfit_recommender (Some 15000))
   \<and> ExpectVisible try_on_heading (Some 10000) \<in> set (snd (try_on_run_verification w_ok []))
   \<and> \<not> fixed_sleep (ExpectVisible try_on_heading (Some 10000))"
proof -
  have m: "WaitForUrl ''http://localhost:3000/onboarding'' None \<in> set (snd (verify_main draws_a w_ok []))"
    "ExpectVisible outfit_recommender (Some 15000) \<in> set (snd (feedback_run_verification w_ok []))"
    "ExpectVisible try_on_heading (Some 10000) \<in> set (snd (try_on_run_verification w_ok []))"
    by (simp_all add: verify_main_def verify_steps_def feedback_run_verification_def feedback_steps_def
        try_on_run_verification_def try_on_steps_def ev w_ok_def)
  from m
    no_fixed_sleep_outside_update [of "WaitForUrl ''http://localhost:3000/onboarding'' None" draws_a w_ok]
    no_fixed_sleep_outside_update [of "ExpectVisible outfit_recommender (Some 15000)" draws_a w_ok]
    no_fixed_sleep_outside_update [of "ExpectVisible try_on_heading (Some 10000)" draws_a w_ok]
  show ?thesis by blast
qed

section \<open>Two runs of one scenario\<close>








section \<open>What the scenarios assert\<close>

lemma all_ok_nth:
  "all_ok w h as \<Longrightarrow> j < length as \<Longrightarrow> raises w (h @ take j as) (as ! j) = None"
  by (simp add: all_ok_def)

lemma fails_atI:
  "all_ok w [] (pre @ take k as) \<Longrightarrow> k < length as \<Longrightarrow> raises w (pre @ take k as) (as ! k) \<noteq> None
   \<Longrightarrow> all_ok w [] pre \<and> fails_at w pre as k"
  by (simp add: fails_at_def all_ok_append)

text \<open>What \<open>verify.py\<close> checks, whatever the application does.\<close>

lemma verify_main_checks:
  \<open>(exit_status (verify_main d w []) = 0 \<longrightarrow>
      snd (verify_main d w []) = session @ verify_steps d @ [BrowserClose, PlaywrightStop]
      \<and> w (session @ take 13 (verify_steps d))
          (ExpectVisible (ByText ''You need to add at least one of each: Bottom, Footwear.'') None)
        = None)
   \<and> verify_steps d ! 12 = Goto ''http://localhost:3000''
   \<and> verify_steps d ! 13 =
       ExpectVisible (ByText ''You need to add at least one of each: Bottom, Footwear.'') None
   \<and> filter is_upload (verify_steps d) =
       [SetInputFiles (Css ''input[type="file"]'') ''src/app/wardrobe/placeholder.png'']
   \<and> (all_ok w [] (session @ take 13 (verify_steps d)) \<and>
       w (session @ take 13 (verify_steps d))
          (ExpectVisible (ByText ''You need to add at least one of each: Bottom, Footwear.'') None)
        = Some e \<longrightarrow>
      exit_status (verify_main d w []) = 1
      \<and> snd (verify_main d w []) =
          session @ take 14 (verify_steps d) @ [BrowserClose, PlaywrightStop])\<close>
proof -
  have n13: "verify_steps d ! 13 =
       ExpectVisible (ByText ''You need to add at least one of each: Bottom, Footwear.'') None"
    and n12: "verify_steps d ! 12 = Goto ''http://localhost:3000''"
    and len: "length (verify_steps d) = 15"
    and up: \<open>filter is_upload (verify_steps d) =
       [SetInputFiles (Css ''input[type="file"]'') ''src/app/wardrobe/placeholder.png'']\<close>
    by (simp_all add: verify_steps_def insufficient_text_def home_def)
  have c1: "snd (verify_main d w []) = session @ verify_steps d @ [BrowserClose, PlaywrightStop]
      \<and> w (session @ take 13 (verify_steps d))
          (ExpectVisible (ByText ''You need to add at least one of each: Bottom, Footwear.'') None)
        = None"
    if p: "exit_status (verify_main d w []) = 0"
  proof -
    from p have ok: "all_ok w [] (session @ verify_steps d @ [BrowserClose, PlaywrightStop])"
      by (simp only: verify_main_pass_iff)
    then have ok1: "all_ok w [] (PlaywrightStart # [Launch (Some True), NewPage] @ verify_steps d)"
      and ok2: "all_ok w session (verify_steps d)"
      by (simp_all add: all_ok_append all_ok_Cons session_def)
    from guarded_ok_snd [OF ok1, of "[BrowserClose]"]
    have t: "snd (verify_main d w []) = session @ verify_steps d @ [BrowserClose, PlaywrightStop]"
      by (simp add: verify_main_def session_def run_calls_single del: run_calls.simps)
    from all_ok_nth [OF ok2, of 13] len n13
    have "w (session @ take 13 (verify_steps d))
          (ExpectVisible (ByText ''You need to add at least one of each: Bottom, Footwear.'') None)
        = None"
      by (simp add: raises_def)
    with t show ?thesis by simp
  qed
  have c2: "exit_status (verify_main d w []) = 1
      \<and> snd (verify_main d w []) =
          session @ take 14 (verify_steps d) @ [BrowserClose, PlaywrightStop]"
    if a: "all_ok w [] (session @ take 13 (verify_steps d))"
      and b: "w (session @ take 13 (verify_steps d))
          (ExpectVisible (ByText ''You need to add at least one of each: Bottom, Footwear.'') None)
        = Some e"
  proof -
    from b n13 have "raises w (session @ take 13 (verify_steps d)) (verify_steps d ! 13) \<noteq> None"
      by (simp add: raises_def)
    with a len have "all_ok w [] session \<and> fails_at w session (verify_steps d) 13"
      by (intro fails_atI) simp_all
    then have a': "all_ok w [] (PlaywrightStart # [Launch (Some True), NewPage])"
      "fails_at w ([] @ PlaywrightStart # [Launch (Some True), NewPage]) (verify_steps d) 13"
      by (simp_all add: session_def)
    from guarded_fail [OF a', of "[BrowserClose]"] show ?thesis
      by (simp add: exit_status_1 verify_main_def session_def run_calls_single
          del: run_calls.simps take_Suc_Cons)
  qed
  from c1 c2 n12 n13 up show ?thesis by blast
qed

lemmas ws = all_ok_Cons raises_def w_silent_home_def session_def home_def

lemmas am = app_world_def after_def app_call_def goto_def fill_def click_def choose_file_def
  await_def wait_until_def given_timeout_def show_text_def is_add_item_def is_file_input_def
  selected_def home_message_def signup_url_def onboarding_url_def wardrobe_url_def fresh_def
  home_def

lemma email_nonempty: "email d \<noteq> []"
  by (simp add: email_def)

text \<open>The run of \<open>verify.py\<close> against the application, started with no account.\<close>

lemma verify_against_app:
  assumes "detect cfg ''src/app/wardrobe/placeholder.png'' = Some Top"
    and "lag cfg (ByText ''Item added successfully'') \<le> expect_default cfg"
    and "lag cfg (ByText ''You need to add at least one of each: Bottom, Footwear.'')
           \<le> expect_default cfg"
  shows \<open>verify_main d (app_world cfg fresh) [] =
     (None,
      [PlaywrightStart, Launch (Some True), NewPage,
       Goto ''http://localhost:3000/auth/sign-up'',
       Screenshot ''jules-scratch/verification/signup-page.png'',
       Fill (ByLabel ''Email'') (email d),
       Fill (ByLabel ''Password'') ''password'',
       Click (ByRole ''button'' ''Sign Up''),
       WaitForUrl ''http://localhost:3000/onboarding'' None,
       Click (ByRole ''button'' ''Get Started''),
       WaitForUrl ''http://localhost:3000/wardrobe'' None,
       Click (ByRole ''button'' ''Add Item''),
       SetInputFiles (Css ''input[type="file"]'') ''src/app/wardrobe/placeholder.png'',
       Click (ByRole ''button'' ''Add Item''),
       ExpectVisible (ByText ''Item added successfully'') None,
       Goto ''http://localhost:3000'',
       ExpectVisible (ByText ''You need to add at least one of each: Bottom, Footwear.'') None,
       Screenshot ''jules-scratch/verification/insufficient-items.png'',
       BrowserClose, PlaywrightStop])\<close>
  using assms email_nonempty [of d]
  by (simp add: verify_main_def verify_steps_def insufficient_text_def ev am max_def)

lemma verify_leaves_app:
  assumes "detect cfg ''src/app/wardrobe/placeholder.png'' = Some Top"
    and "lag cfg (ByText ''Item added successfully'') \<le> expect_default cfg"
    and "lag cfg (ByText ''You need to add at least one of each: Bottom, Footwear.'')
           \<le> expect_default cfg"
  shows "accounts (after cfg fresh (snd (verify_main d (app_world cfg fresh) []))) = [email d]"
    and "wardrobe (after cfg fresh (snd (verify_main d (app_world cfg fresh) []))) = [Top]"
    and "url (after cfg fresh (snd (verify_main d (app_world cfg fresh) [])))
           = ''http://localhost:3000''"
    and "visible (after cfg fresh (snd (verify_main d (app_world cfg fresh) [])))
           (ByText ''You need to add at least one of each: Bottom, Footwear.'')"
  unfolding verify_against_app [OF assms]
  using assms email_nonempty [of d]
  by (simp_all add: visible_def am max_def del: app_world_def)

text \<open>
  Claim C4: in the scenario of the insufficient wardrobe, starting from a fresh account and
  after adding exactly one item, a top, and none of the categories bottom or footwear,
  navigating to the home page makes the exact text
  \<open>You need to add at least one of each: Bottom, Footwear.\<close> visible, and the scenario
  asserts exactly that string.

  Against the application as the specification describes it, started with no account, when
  the detection takes the placeholder image for a top and the two texts appear within the
  default timeout of \<open>expect\<close>: the run of \<open>verify.py\<close> passes, and its calls are the twenty
  listed, with the sign-up, the onboarding, one upload through the add-item form, the
  navigation to the home page and then the assertion of exactly that text. The address it
  signs up with had no account; afterwards it is the only account, its wardrobe holds one
  top and nothing else, the home page is open and the text is visible on it.

  Against any application whatsoever, the run passes only if that text was visible right
  after the navigation to the home page; and when everything before the assertion returns
  and the text is not visible, the run fails there, with nothing after the assertion but
  \<open>browser.close()\<close>.
\<close>

theorem insufficient_wardrobe_scenario:
  \<open>(detect cfg ''src/app/wardrobe/placeholder.png'' = Some Top \<and>
    lag cfg (ByText ''Item added successfully'') \<le> expect_default cfg \<and>
    lag cfg (ByText ''You need to add at least one of each: Bottom, Footwear.'')
      \<le> expect_default cfg \<longrightarrow>
      verify_main d (app_world cfg fresh) [] =
        (None,
         [PlaywrightStart, Launch (Some True), NewPage,
          Goto ''http://localhost:3000/auth/sign-up'',
          Screenshot ''jules-scratch/verification/signup-page.png'',
          Fill (ByLabel ''Email'') (email d),
          Fill (ByLabel ''Password'') ''password'',
          Click (ByRole ''button'' ''Sign Up''),
          WaitForUrl ''http://localhost:3000/onboarding'' None,
          Click (ByRole ''button'' ''Get Started''),
          WaitForUrl ''http://localhost:3000/wardrobe'' None,
          Click (ByRole ''button'' ''Add Item''),
          SetInputFiles (Css ''input[type="file"]'') ''src/app/wardrobe/placeholder.png'',
          Click (ByRole ''button'' ''Add Item''),
          ExpectVisible (ByText ''Item added successfully'') None,
          Goto ''http://localhost:3000'',
          ExpectVisible
            (ByText ''You need to add at least one of each: Bottom, Footwear.'') None,
          Screenshot ''jules-scratch/verification/insufficient-items.png'',
          BrowserClose, PlaywrightStop])
      \<and> email d \<notin> set (accounts fresh)
      \<and> accounts (after cfg fresh (snd (verify_main d (app_world cfg fresh) []))) = [email d]
      \<and> wardrobe (after cfg fresh (snd (verify_main d (app_world cfg fresh) []))) = [Top]
      \<and> url (after cfg fresh (snd (verify_main d (app_world cfg fresh) [])))
          = ''http://localhost:3000''
      \<and> visible (after cfg fresh (snd (verify_main d (app_world cfg fresh) [])))
          (ByText ''You need to add at least one of each: Bottom, Footwear.''))
   \<and> (exit_status (verify_main d w []) = 0 \<longrightarrow>
      snd (verify_main d w []) = session @ verify_steps d @ [BrowserClose, PlaywrightStop]
      \<and> w (session @ take 13 (verify_steps d))
          (ExpectVisible (ByText ''You need to add at least one of each: Bottom, Footwear.'') None)
        = None)
   \<and> (all_ok w [] (session @ take 13 (verify_steps d)) \<and>
       w (session @ take 13 (verify_steps d))
          (ExpectVisible (ByText ''You need to add at least one of each: Bottom, Footwear.'') None)
        = Some e \<longrightarrow>
      exit_status (verify_main d w []) = 1
      \<and> snd (verify_main d w []) =
          session @ take 14 (verify_steps d) @ [BrowserClose, PlaywrightStop])\<close>
  using verify_against_app [of cfg d] verify_leaves_app [of cfg d] verify_main_checks [of d w e]
  by (simp add: fresh_def)

text \<open>Claim C4 at an application in which the detection takes the placeholder for a top and
  every text appears after 200 ms; at a world that answers every call; and at one whose home
  page does not show the text.\<close>

theorem insufficient_wardrobe_scenario_witness:
  \<open>exit_status (verify_main draws_a (app_world site_a fresh) []) = 0
   \<and> wardrobe (after site_a fresh (snd (verify_main draws_a (app_world site_a fresh) []))) = [Top]
   \<and> accounts (after site_a fresh (snd (verify_main draws_a (app_world site_a fresh) [])))
       = [email draws_a]
   \<and> visible (after site_a fresh (snd (verify_main draws_a (app_world site_a fresh) [])))
       (ByText ''You need to add at least one of each: Bottom, Footwear.'')
   \<and> exit_status (verify_main draws_a w_ok []) = 0
   \<and> exit_status (verify_main draws_a w_silent_home []) = 1
   \<and> snd (verify_main draws_a w_silent_home []) =
       session @ take 14 (verify_steps draws_a) @ [BrowserClose, PlaywrightStop]\<close>
proof -
  note t = insufficient_wardrobe_scenario
             [of site_a draws_a w_silent_home "''Locator expected to be visible''"]
  have c: "detect site_a ''src/app/wardrobe/placeholder.png'' = Some Top \<and>
    lag site_a (ByText ''Item added successfully'') \<le> expect_default site_a \<and>
    lag site_a (ByText ''You need to add at least one of each: Bottom, Footwear.'')
      \<le> expect_default site_a"
    by (simp add: site_a_def)
  have p: "exit_status (verify_main draws_a w_ok []) = 0"
    by (simp add: verify_main_def verify_steps_def exit_status_def ev w_ok_def)
  have a: "all_ok w_silent_home [] (session @ take 13 (verify_steps draws_a)) \<and>
      w_silent_home (session @ take 13 (verify_steps draws_a))
          (ExpectVisible (ByText ''You need to add at least one of each: Bottom, Footwear.'') None)
        = Some ''Locator expected to be visible''"
    by (simp add: ws verify_steps_def)
  note q = t [THEN conjunct1, THEN mp, OF c]
  have r: "fst (verify_main draws_a (app_world site_a fresh) []) = None"
    using q [THEN conjunct1] by simp
  note s = q [THEN conjunct2, THEN conjunct2, THEN conjunct2, THEN conjunct1]
    q [THEN conjunct2, THEN conjunct2, THEN conjunct1]
    q [THEN conjunct2, THEN conjunct2, THEN conjunct2, THEN conjunct2, THEN conjunct2]
  from r have e: "exit_status (verify_main draws_a (app_world site_a fresh) []) = 0"
    by (simp add: exit_status_def)
  from t [THEN conjunct2, THEN conjunct2, THEN mp, OF a] e s p show ?thesis
    by (simp only: simp_thms)
qed

text \<open>What \<open>verify_invalid_image.py\<close> checks, whatever the application does.\<close>

lemma invalid_image_checks:
  \<open>(exit_status (invalid_image_script w []) = 0 \<longrightarrow>
      snd (invalid_image_script w []) =
        invalid_image_session @ invalid_image_steps @ [ContextClose, BrowserClose, PlaywrightStop]
      \<and> w (invalid_image_session @ take 3 invalid_image_steps)
          (WaitForSelector
             ''text="AI could not detect a clothing item. Please try another image."'' None)
        = None)
   \<and> invalid_image_steps ! 2 =
       SetInputFiles (Css ''input[type="file"]'') ''tests/fixtures/wooden-plank.jpeg''
   \<and> invalid_image_steps ! 3 =
       WaitForSelector
         ''text="AI could not detect a clothing item. Please try another image."'' None
   \<and> (all_ok w [] (invalid_image_session @ take 3 invalid_image_steps) \<and>
       w (invalid_image_session @ take 3 invalid_image_steps)
          (WaitForSelector
             ''text="AI could not detect a clothing item. Please try another image."'' None)
        = Some e \<longrightarrow>
      exit_status (invalid_image_script w []) = 1
      \<and> filter is_screenshot (snd (invalid_image_script w [])) = [])\<close>
proof -
  have n3: \<open>invalid_image_steps ! 3 =
       WaitForSelector
         ''text="AI could not detect a clothing item. Please try another image."'' None\<close>
    and n2: \<open>invalid_image_steps ! 2 =
       SetInputFiles (Css ''input[type="file"]'') ''tests/fixtures/wooden-plank.jpeg''\<close>
    and len: "length invalid_image_steps = 5"
    and t4: "filter is_screenshot (take 4 invalid_image_steps) = []"
    by (simp_all add: invalid_image_steps_def invalid_image_text_def)
  have c1: \<open>snd (invalid_image_script w []) =
        invalid_image_session @ invalid_image_steps @ [ContextClose, BrowserClose, PlaywrightStop]
      \<and> w (invalid_image_session @ take 3 invalid_image_steps)
          (WaitForSelector
             ''text="AI could not detect a clothing item. Please try another image."'' None)
        = None\<close>
    if p: "exit_status (invalid_image_script w []) = 0"
  proof -
    from p have ok: "all_ok w [] (PlaywrightStart # [Launch (Some True), NewContext, NewPage]
        @ invalid_image_steps @ [ContextClose, BrowserClose] @ [PlaywrightStop])"
      by (simp add: exit_status_0 invalid_image_script_def invalid_image_run_def fst_guarded
          del: run_calls.simps)
    then have ok1: "all_ok w [] (PlaywrightStart # [Launch (Some True), NewContext, NewPage]
        @ invalid_image_steps)"
      and ok2: "all_ok w invalid_image_session invalid_image_steps"
      and ok3: "raises w (invalid_image_session @ invalid_image_steps) ContextClose = None"
      by (simp_all add: all_ok_append all_ok_Cons invalid_image_session_def)
    from guarded_ok_snd [OF ok1, of "[ContextClose, BrowserClose]"] ok3
    have t: "snd (invalid_image_script w []) =
        invalid_image_session @ invalid_image_steps @ [ContextClose, BrowserClose, PlaywrightStop]"
      by (simp add: invalid_image_script_def invalid_image_run_def invalid_image_session_def
          closing_snd del: run_calls.simps)
    from all_ok_nth [OF ok2, of 3] len n3
    have \<open>w (invalid_image_session @ take 3 invalid_image_steps)
          (WaitForSelector
             ''text="AI could not detect a clothing item. Please try another image."'' None)
        = None\<close>
      by (simp add: raises_def)
    with t show ?thesis by simp
  qed
  have c2: "exit_status (invalid_image_script w []) = 1
      \<and> filter is_screenshot (snd (invalid_image_script w [])) = []"
    if a: "all_ok w [] (invalid_image_session @ take 3 invalid_image_steps)"
      and b: \<open>w (invalid_image_session @ take 3 invalid_image_steps)
          (WaitForSelector
             ''text="AI could not detect a clothing item. Please try another image."'' None)
        = Some e\<close>
  proof -
    from b n3 have "raises w (invalid_image_session @ take 3 invalid_image_steps)
        (invalid_image_steps ! 3) \<noteq> None"
      by (simp add: raises_def)
    with a len have "all_ok w [] invalid_image_session
        \<and> fails_at w invalid_image_session invalid_image_steps 3"
      by (intro fails_atI) simp_all
    then have a': "all_ok w [] (PlaywrightStart # [Launch (Some True), NewContext, NewPage])"
      "fails_at w ([] @ PlaywrightStart # [Launch (Some True), NewContext, NewPage])
         invalid_image_steps 3"
      by (simp_all add: invalid_image_session_def)
    from guarded_fail [OF a', of "[ContextClose, BrowserClose]"] t4 show ?thesis
      by (simp add: exit_status_1 invalid_image_script_def invalid_image_run_def closing_snd
          numeral_eq_Suc del: run_calls.simps take_Suc_Cons)
  qed
  from c1 c2 n2 n3 show ?thesis by blast
qed

lemmas wi = all_ok_Cons raises_def w_accepts_any_image_def invalid_image_session_def

text \<open>The run of \<open>verify_invalid_image.py\<close> against the application.\<close>

lemma invalid_image_against_app:
  assumes "detect cfg ''tests/fixtures/wooden-plank.jpeg'' = None"
    and "lag cfg (ByText ''AI could not detect a clothing item. Please try another image.'')
           \<le> wait_default cfg"
  shows \<open>invalid_image_script (app_world cfg fresh) [] =
     (None,
      [PlaywrightStart, Launch (Some True), NewContext, NewPage,
       Goto ''http://localhost:3000/wardrobe'',
       Click (Css ''button:has-text("Add Item")''),
       SetInputFiles (Css ''input[type="file"]'') ''tests/fixtures/wooden-plank.jpeg'',
       WaitForSelector
         ''text="AI could not detect a clothing item. Please try another image."'' None,
       Screenshot ''jules-scratch/verification/verification.png'',
       ContextClose, BrowserClose, PlaywrightStop])\<close>
  using assms
  by (simp add: invalid_image_script_def invalid_image_run_def invalid_image_steps_def
      invalid_image_text_def ev am max_def)

lemma invalid_image_leaves_app:
  assumes "detect cfg ''tests/fixtures/wooden-plank.jpeg'' = None"
    and "lag cfg (ByText ''AI could not detect a clothing item. Please try another image.'')
           \<le> wait_default cfg"
  shows "wardrobe (after cfg fresh (snd (invalid_image_script (app_world cfg fresh) []))) = []"
    and "visible (after cfg fresh (snd (invalid_image_script (app_world cfg fresh) [])))
           (ByText ''AI could not detect a clothing item. Please try another image.'')"
  unfolding invalid_image_against_app [OF assms]
  using assms
  by (simp_all add: visible_def am max_def del: app_world_def)

lemma invalid_image_too_slow:
  assumes "detect cfg ''tests/fixtures/wooden-plank.jpeg'' = None"
    and "\<not> lag cfg (ByText ''AI could not detect a clothing item. Please try another image.'')
           \<le> wait_default cfg"
  shows "exit_status (invalid_image_script (app_world cfg fresh) []) = 1"
  using assms
  by (simp add: invalid_image_script_def invalid_image_run_def invalid_image_steps_def
      invalid_image_text_def exit_status_def ev am max_def)

text \<open>
  Claim C6: in the scenario of the invalid image, uploading an image that shows no clothing
  to the add-item flow brings up exactly the text
  \<open>AI could not detect a clothing item. Please try another image.\<close> within the configured
  timeout, and the scenario waits for exactly that string.

  The script passes no timeout to its wait, so the configured timeout is the default of the
  library. Against the application as the specification describes it, when the detection
  finds no clothing in the picture of the wooden plank: the run of
  \<open>verify_invalid_image.py\<close> passes if and only if the application shows the text within
  that timeout. When it does, the calls of the run are the twelve listed: the wardrobe page,
  the add-item form, the upload, then the wait for exactly that text; afterwards the text
  is visible and nothing was added to the wardrobe.

  Against any application whatsoever, the run passes only if that text appeared to the wait
  right after the upload; and when the three steps before the wait return and the text does
  not appear in time, the run fails without any screenshot.
\<close>

theorem invalid_image_scenario:
  \<open>(detect cfg ''tests/fixtures/wooden-plank.jpeg'' = None \<longrightarrow>
      (exit_status (invalid_image_script (app_world cfg fresh) []) = 0 \<longleftrightarrow>
       lag cfg (ByText ''AI could not detect a clothing item. Please try another image.'')
         \<le> wait_default cfg))
   \<and> (detect cfg ''tests/fixtures/wooden-plank.jpeg'' = None \<and>
      lag cfg (ByText ''AI could not detect a clothing item. Please try another image.'')
        \<le> wait_default cfg \<longrightarrow>
      invalid_image_script (app_world cfg fresh) [] =
        (None,
         [PlaywrightStart, Launch (Some True), NewContext, NewPage,
          Goto ''http://localhost:3000/wardrobe'',
          Click (Css ''button:has-text("Add Item")''),
          SetInputFiles (Css ''input[type="file"]'') ''tests/fixtures/wooden-plank.jpeg'',
          WaitForSelector
            ''text="AI could not detect a clothing item. Please try another image."'' None,
          Screenshot ''jules-scratch/verification/verification.png'',
          ContextClose, BrowserClose, PlaywrightStop])
      \<and> wardrobe (after cfg fresh (snd (invalid_image_script (app_world cfg fresh) []))) = []
      \<and> visible (after cfg fresh (snd (invalid_image_script (app_world cfg fresh) [])))
          (ByText ''AI could not detect a clothing item. Please try another image.''))
   \<and> (exit_status (invalid_image_script w []) = 0 \<longrightarrow>
      snd (invalid_image_script w []) =
        invalid_image_session @ invalid_image_steps @ [ContextClose, BrowserClose, PlaywrightStop]
      \<and> w (invalid_image_session @ take 3 invalid_image_steps)
          (WaitForSelector
             ''text="AI could not detect a clothing item. Please try another image."'' None)
        = None)
   \<and> (all_ok w [] (invalid_image_session @ take 3 invalid_image_steps) \<and>
       w (invalid_image_session @ take 3 invalid_image_steps)
          (WaitForSelector
             ''text="AI could not detect a clothing item. Please try another image."'' None)
        = Some e \<longrightarrow>
      exit_status (invalid_image_script w []) = 1
      \<and> filter is_screenshot (snd (invalid_image_script w [])) = [])\<close>
proof -
  have i: "exit_status (invalid_image_script (app_world cfg fresh) []) = 0 \<longleftrightarrow>
       lag cfg (ByText ''AI could not detect a clothing item. Please try another image.'')
         \<le> wait_default cfg"
    if "detect cfg ''tests/fixtures/wooden-plank.jpeg'' = None"
    using that invalid_image_against_app [of cfg] invalid_image_too_slow [of cfg]
    by (cases "lag cfg (ByText ''AI could not detect a clothing item. Please try another image.'')
         \<le> wait_default cfg") (simp_all add: exit_status_def)
  from i invalid_image_against_app [of cfg] invalid_image_leaves_app [of cfg]
    invalid_image_checks [of w e]
  show ?thesis by blast
qed

text \<open>Claim C6 at the application in which every text appears after 200 ms and the default
  timeout is 30 seconds; at a world that answers every call; and at one that never shows
  the rejection.\<close>

theorem invalid_image_scenario_witness:
  \<open>exit_status (invalid_image_script (app_world site_a fresh) []) = 0
   \<and> wardrobe (after site_a fresh (snd (invalid_image_script (app_world site_a fresh) []))) = []
   \<and> visible (after site_a fresh (snd (invalid_image_script (app_world site_a fresh) [])))
       (ByText ''AI could not detect a clothing item. Please try another image.'')
   \<and> exit_status (invalid_image_script w_ok []) = 0
   \<and> exit_status (invalid_image_script w_accepts_any_image []) = 1
   \<and> filter is_screenshot (snd (invalid_image_script w_accepts_any_image [])) = []\<close>
proof -
  note t = invalid_image_scenario [of site_a w_accepts_any_image "''Timeout 30000ms exceeded.''"]
  have c: "detect site_a ''tests/fixtures/wooden-plank.jpeg'' = None \<and>
      lag site_a (ByText ''AI could not detect a clothing item. Please try another image.'')
        \<le> wait_default site_a"
    by (simp add: site_a_def)
  have p: "exit_status (invalid_image_script w_ok []) = 0"
    by (simp add: invalid_image_script_def invalid_image_run_def invalid_image_steps_def
        exit_status_def ev w_ok_def)
  have a: \<open>all_ok w_accepts_any_image [] (invalid_image_session @ take 3 invalid_image_steps) \<and>
      w_accepts_any_image (invalid_image_session @ take 3 invalid_image_steps)
          (WaitForSelector
             ''text="AI could not detect a clothing item. Please try another image."'' None)
        = Some ''Timeout 30000ms exceeded.''\<close>
    by (simp add: wi invalid_image_steps_def)
  note q = t [THEN conjunct2, THEN conjunct1, THEN mp, OF c]
  note e = t [THEN conjunct1, THEN mp, OF c [THEN conjunct1], THEN iffD2, OF c [THEN conjunct2]]
  note s = q [THEN conjunct2]
  from t [THEN conjunct2, THEN conjunct2, THEN conjunct2, THEN mp, OF a] e s p show ?thesis
    by (simp only: simp_thms)
qed










section \<open>The placeholder image\<close>











end
